theory Spec2Isabelle
  imports Complex_Main "HOL-Library.AList" "HOL-Library.Sublist" "HOL-Library.Word"
begin

section \<open>JavaScript values used by server.js\<close>

text \<open>
  Option objects and JSON bodies are JavaScript objects. An object is an association
  list from property names to values, in insertion order; numbers are rationals
  (the only non-integral number of the source is \<open>deviceScaleFactor: 0.8\<close>).
\<close>

datatype jsval =
    JUndefined
  | JBool bool
  | JNum rat
  | JStr string
  | JArr "jsval list"
  | JObj "(string \<times> jsval) list"

type_synonym jsobject = "(string \<times> jsval) list"

text \<open>
  An object literal \<open>{k1: v1, ...o, k2: v2}\<close> assigns its properties from left to right;
  assigning a name that is already there replaces its value and keeps its place.
\<close>

definition assign :: "jsobject \<Rightarrow> string \<times> jsval \<Rightarrow> jsobject" where
  "assign obj kv = AList.update (fst kv) (snd kv) obj"

definition object_literal :: "(string \<times> jsval) list \<Rightarrow> jsobject" where
  "object_literal props = foldl assign [] props"

definition get_prop :: "jsobject \<Rightarrow> string \<Rightarrow> jsval" where
  "get_prop obj k = (case map_of obj k of None \<Rightarrow> JUndefined | Some v \<Rightarrow> v)"

text \<open>\<open>JSON.stringify\<close> leaves out the properties whose value is \<open>undefined\<close>.\<close>

definition json_stringify :: "jsobject \<Rightarrow> jsobject" where
  "json_stringify obj = filter (\<lambda>kv. snd kv \<noteq> JUndefined) obj"

definition has_prop :: "jsobject \<Rightarrow> string \<Rightarrow> bool" where
  "has_prop obj k = (map_of obj k \<noteq> None)"

text \<open>
  A value of \<open>req.query\<close>, as the query-string parser of Express produces it: absent,
  a string, an array or a nested object. The parser of Express 4 also takes the names of
  \<open>Object.prototype\<close> as keys, so that \<open>?url[toString]=x\<close> gives the object
  \<open>{toString: 'x'}\<close>.
\<close>

datatype query_value =
    QUndefined
  | QString string
  | QArray "query_value list"
  | QObject "(string \<times> query_value) list"

text \<open>\<open>!url\<close> is true for \<open>undefined\<close> and for the empty string only.\<close>

fun truthy :: "query_value \<Rightarrow> bool" where
  "truthy QUndefined = False"
| "truthy (QString s) = (s \<noteq> [])"
| "truthy (QArray xs) = True"
| "truthy (QObject kvs) = True"

fun join_with :: "string \<Rightarrow> string list \<Rightarrow> string" where
  "join_with sep [] = []"
| "join_with sep [x] = x"
| "join_with sep (x # y # ys) = x @ sep @ join_with sep (y # ys)"

text \<open>
  The string a template literal \<open>`${url}`\<close> inserts, or \<open>None\<close> when the conversion
  throws the \<open>TypeError\<close> \<open>Cannot convert object to primitive value\<close>. An object is
  converted by its \<open>toString\<close>: the one of \<open>Object.prototype\<close> gives
  \<open>[object Object]\<close>, but an own property \<open>toString\<close> set by the query string is no
  function, and \<open>valueOf\<close> gives no primitive either. An array joins the strings of its
  elements with commas, an \<open>undefined\<close> element counting as the empty string, and throws
  when an element does.
\<close>

fun to_string :: "query_value \<Rightarrow> string option" where
  "to_string QUndefined = Some ''undefined''"
| "to_string (QString s) = Some s"
| "to_string (QArray xs) =
     map_option (join_with '','')
       (those (map (\<lambda>x. if x = QUndefined then Some [] else to_string x) xs))"
| "to_string (QObject kvs) =
     (if ''toString'' \<in> set (map fst kvs) then None else Some ''[object Object]'')"

text \<open>The decimal digits of a number, as a template literal prints an integer.\<close>

definition digit_char :: "nat \<Rightarrow> char" where
  "digit_char d = char_of (d + of_char CHR ''0'')"

fun string_of_nat :: "nat \<Rightarrow> string" where
  "string_of_nat n =
     (let last_digit = digit_char (n mod 10)
      in if n < 10 then [last_digit] else string_of_nat (n div 10) @ [last_digit])"

declare string_of_nat.simps [simp del]

text \<open>Reading decimal digits back: the inverse direction, used to state that a number
  printed into a message can be recovered from it.\<close>

definition digit_value :: "char \<Rightarrow> nat" where
  "digit_value c = of_char c - of_char CHR ''0''"

definition nat_of_digits :: "string \<Rightarrow> nat" where
  "nat_of_digits ds = foldl (\<lambda>acc c. 10 * acc + digit_value c) 0 ds"

type_synonym byte = "8 word"

section \<open>Errors, events and the state of one request\<close>

text \<open>A thrown \<open>Error\<close>: its message and the stack trace the runtime attached to it.\<close>

record js_error =
  message :: string
  stack :: string

datatype logarg = LStr string | LErr js_error

text \<open>
  Everything the handler does to the outside world, in order: console output and the
  calls into puppeteer and the file system.
\<close>

datatype event =
    ConsoleLog "logarg list"
  | ConsoleError "logarg list"
  | PuppeteerLaunch jsobject
  | BrowserNewPage
  | PageSetViewport jsval
  | PageGoto query_value jsobject
  | PageWaitForSelector string jsobject
  | SettleDelay nat
  | PagePdf jsobject
  | FsStat string
  | FsReadFile string
  | FsUnlink string
  | BrowserClose

datatype payload = SendBuffer "byte list" | SendJson jsobject

text \<open>
  The state one request runs in: the handler's two \<open>let\<close> variables, the trace of
  events, the files of the temporary directory, every timer set by \<open>setTimeout\<close> so far
  (path and delay in milliseconds) in \<open>timers\<close>, those of them that have not fired yet
  in \<open>pending\<close>, the \<open>unlink\<close> calls of fired timers whose callback has not
  resumed yet in \<open>unlinking\<close>, and the response object \<open>res\<close>.
\<close>

record hstate =
  browser :: "nat option"
  tempFilePath :: "string option"
  events :: "event list"
  files :: "string \<Rightarrow> byte list option"
  timers :: "(string \<times> nat) list"
  pending :: "(string \<times> nat) list"
  unlinking :: "(string \<times> (js_error + unit)) list"
  res_status :: nat
  res_headers :: jsobject
  res_sent :: "payload list"

type_synonym 'a result = "(js_error + 'a) \<times> hstate"

record nav_response =
  resp_status :: nat
  resp_ok :: bool

text \<open>
  What the outside world answers during one request. Every \<open>await\<close> of the handler
  can throw; \<open>page.goto\<close> can also resolve to \<open>null\<close>. \<open>page_pdf\<close> gives the bytes
  the engine writes to the path it was given. \<open>close_elapsed\<close> is the time in
  milliseconds the handler spends waiting for \<open>browser.close()\<close>, during which the
  event loop runs the timers that fall due; \<open>unlink_elapsed\<close> is the time an
  \<open>fs.unlink\<close> takes to settle.
\<close>

record env =
  NODE_ENV :: "string option"
  dirname :: string
  randomBytes :: "nat \<Rightarrow> byte list"
  error_stack :: "string \<Rightarrow> string"
  puppeteer_launch :: "js_error + nat"
  browser_newPage :: "js_error option"
  page_setViewport :: "js_error option"
  page_goto :: "js_error + nav_response option"
  page_waitForSelector :: "js_error option"
  page_pdf :: "js_error + byte list"
  fs_stat_fault :: "js_error option"
  fs_readFile_fault :: "js_error option"
  browser_close :: "js_error option"
  close_elapsed :: nat
  unlink_elapsed :: nat

record request =
  header_origin :: "string option"
  query_url :: query_value

definition new_Error :: "env \<Rightarrow> string \<Rightarrow> js_error" where
  "new_Error e msg = \<lparr>message = msg, stack = error_stack e msg\<rparr>"

definition emit :: "event \<Rightarrow> hstate \<Rightarrow> hstate" where
  "emit ev s = s\<lparr>events := events s @ [ev]\<rparr>"

definition console_log :: "string \<Rightarrow> hstate \<Rightarrow> hstate" where
  "console_log msg s = emit (ConsoleLog [LStr msg]) s"

definition initial_state :: "(string \<Rightarrow> byte list option) \<Rightarrow> hstate" where
  "initial_state fs =
     \<lparr>browser = None, tempFilePath = None, events = [], files = fs, timers = [],
      pending = [], unlinking = [], res_status = 200, res_headers = [], res_sent = []\<rparr>"

section \<open>Cross-origin check (lines 11-31)\<close>

definition allowedOrigins :: "string list" where
  "allowedOrigins = [''http://localhost:3000'', ''*'']"

text \<open>\<open>Array.prototype.indexOf\<close>: the first index holding the element, or -1.\<close>

fun indexOf_from :: "int \<Rightarrow> string list \<Rightarrow> string \<Rightarrow> int" where
  "indexOf_from i [] x = -1"
| "indexOf_from i (y # ys) x = (if y = x then i else indexOf_from (i + 1) ys x)"

definition indexOf :: "string list \<Rightarrow> string \<Rightarrow> int" where
  "indexOf xs x = indexOf_from 0 xs x"

text \<open>
  \<open>corsOptions.origin\<close>. The callback receives either an error or \<open>true\<close>; the header
  is \<open>undefined\<close> (\<open>None\<close>) when the request has none, and \<open>!origin\<close> holds for
  \<open>undefined\<close> and for the empty string.
\<close>

definition corsOptions_origin :: "env \<Rightarrow> string option \<Rightarrow> js_error + bool" where
  "corsOptions_origin e origin =
     (case origin of
        None \<Rightarrow> Inr True
      | Some orig \<Rightarrow>
          if orig = [] then Inr True
          else if indexOf allowedOrigins orig \<noteq> -1 then Inr True
          else Inl (new_Error e ''Not allowed by CORS''))"

section \<open>Temporary files (lines 36-56)\<close>

text \<open>
  \<open>path.join\<close> and \<open>path.normalize\<close> of Node for POSIX paths: the non-empty arguments
  are joined with \<open>/\<close>; empty and \<open>.\<close> segments are dropped, a \<open>..\<close> segment removes the
  segment before it (and is kept at the front of a relative path), and a trailing
  \<open>/\<close> is kept.
\<close>

fun split_on :: "char \<Rightarrow> string \<Rightarrow> string list" where
  "split_on c [] = [[]]"
| "split_on c (x # xs) =
     (if x = c then [] # split_on c xs
      else (case split_on c xs of [] \<Rightarrow> [[x]] | seg # segs \<Rightarrow> (x # seg) # segs))"

fun normalize_segments :: "bool \<Rightarrow> string list \<Rightarrow> string list \<Rightarrow> string list" where
  "normalize_segments allowAboveRoot res [] = rev res"
| "normalize_segments allowAboveRoot res (seg # segs) =
     (if seg = [] \<or> seg = ''.'' then normalize_segments allowAboveRoot res segs
      else if seg = ''..'' then
        (case res of
           lastSegment # below \<Rightarrow>
             if lastSegment = ''..''
             then normalize_segments allowAboveRoot
                    (if allowAboveRoot then seg # res else res) segs
             else normalize_segments allowAboveRoot below segs
         | [] \<Rightarrow>
             normalize_segments allowAboveRoot (if allowAboveRoot then [seg] else []) segs)
      else normalize_segments allowAboveRoot (seg # res) segs)"

declare split_on.simps [simp del] normalize_segments.simps [simp del]

definition path_normalize :: "string \<Rightarrow> string" where
  "path_normalize p =
     (case p of
        [] \<Rightarrow> ''.''
      | c # cs \<Rightarrow>
          (let isAbsolute = (c = CHR ''/'');
               trailingSeparator = (last p = CHR ''/'');
               path = join_with ''/'' (normalize_segments (\<not> isAbsolute) [] (split_on CHR ''/'' p))
           in if path = [] then
                (if isAbsolute then ''/'' else if trailingSeparator then ''./'' else ''.'')
              else (if isAbsolute then ''/'' else []) @ path
                   @ (if trailingSeparator then ''/'' else [])))"

definition path_join :: "string \<Rightarrow> string \<Rightarrow> string" where
  "path_join a b =
     (let joined = (if a = [] then b else if b = [] then a else a @ ''/'' @ b)
      in if joined = [] then ''.'' else path_normalize joined)"

definition tempDir :: "env \<Rightarrow> string" where
  "tempDir e = path_join (dirname e) ''temp''"

definition hex_digit :: "nat \<Rightarrow> char" where
  "hex_digit d = (if d < 10 then digit_char d else char_of (d - 10 + of_char CHR ''a''))"

definition hex_byte :: "byte \<Rightarrow> string" where
  "hex_byte b = [hex_digit (unat b div 16), hex_digit (unat b mod 16)]"

definition toString_hex :: "byte list \<Rightarrow> string" where
  "toString_hex bs = concat (map hex_byte bs)"

definition getTempFilePath :: "env \<Rightarrow> string" where
  "getTempFilePath e =
     (let randomName = toString_hex (randomBytes e 16)
      in path_join (tempDir e) (randomName @ ''.pdf''))"

text \<open>
  \<open>deleteFileAfterDelay\<close> only sets a timer; the delay parameter defaults to 5000
  when the caller passes none.
\<close>

definition deleteFileAfterDelay :: "string \<Rightarrow> nat option \<Rightarrow> hstate \<Rightarrow> hstate" where
  "deleteFileAfterDelay filePath delay s =
     (let t = (filePath, case delay of None \<Rightarrow> 5000 | Some d \<Rightarrow> d)
      in s\<lparr>timers := timers s @ [t], pending := pending s @ [t]\<rparr>)"

text \<open>The path as Node prints it in the message of a file system error.\<close>

definition quoted :: "string \<Rightarrow> string" where
  "quoted p = CHR 0x27 # p @ [CHR 0x27]"

text \<open>\<open>fs.unlink\<close>: removes the file, or throws when there is none.\<close>

definition fs_unlink :: "env \<Rightarrow> string \<Rightarrow> hstate \<Rightarrow> unit result" where
  "fs_unlink e p s =
     (let s1 = emit (FsUnlink p) s in
      case files s1 p of
        None \<Rightarrow>
          (Inl (new_Error e (''ENOENT: no such file or directory, unlink '' @ quoted p)), s1)
      | Some bytes \<Rightarrow> (Inr (), s1\<lparr>files := (files s1)(p := None)\<rparr>))"

text \<open>
  The timer's callback (lines 48-55): \<open>try { await unlink; log } catch { console.error }\<close>.
  \<open>unlink_settled\<close> is what runs once the promise of \<open>fs.unlink\<close> has settled.
\<close>

definition unlink_settled :: "env \<Rightarrow> string \<Rightarrow> js_error + unit \<Rightarrow> hstate \<Rightarrow> hstate" where
  "unlink_settled e filePath r s =
     (case r of
        Inr u \<Rightarrow> console_log (''[CLEANUP] Deleted temporary file: '' @ filePath) s
      | Inl err \<Rightarrow>
          emit (ConsoleError
            [LStr (''[ERROR] Failed to delete temporary file: '' @ filePath), LErr err]) s)"

definition timer_callback :: "env \<Rightarrow> string \<Rightarrow> hstate \<Rightarrow> unit result" where
  "timer_callback e filePath s =
     (case fs_unlink e filePath s of (r, s1) \<Rightarrow> (Inr (), unlink_settled e filePath r s1))"

text \<open>
  Timers fire while the handler waits or after it has returned. \<open>fire_timer e limit\<close>
  starts the callback of a timer. With \<open>limit = Some elapsed\<close> the handler
  resumes after \<open>elapsed\<close> milliseconds: a callback whose \<open>unlink\<close> has settled by
  then has also logged, another one is left in \<open>unlinking\<close> with the outcome of its
  \<open>unlink\<close>. With \<open>limit = None\<close> nothing cuts the callbacks short. A timer is due
  once its delay has passed, a delay of 0 counting as 1 ms as in Node. A request sets at
  most one timer, so the order among several plays no part.
\<close>

definition timer_due :: "nat \<Rightarrow> string \<times> nat \<Rightarrow> bool" where
  "timer_due elapsed t = (max 1 (snd t) \<le> elapsed)"

definition settles_within :: "env \<Rightarrow> nat option \<Rightarrow> string \<times> nat \<Rightarrow> bool" where
  "settles_within e limit t =
     (case limit of None \<Rightarrow> True | Some elapsed \<Rightarrow> max 1 (snd t) + unlink_elapsed e \<le> elapsed)"

definition fire_timer :: "env \<Rightarrow> nat option \<Rightarrow> string \<times> nat \<Rightarrow> hstate \<Rightarrow> hstate" where
  "fire_timer e limit t s =
     (case fs_unlink e (fst t) s of
        (r, s1) \<Rightarrow>
          if settles_within e limit t then unlink_settled e (fst t) r s1
          else s1\<lparr>unlinking := unlinking s1 @ [(fst t, r)]\<rparr>)"

fun fire_timers :: "env \<Rightarrow> nat option \<Rightarrow> (string \<times> nat) list \<Rightarrow> hstate \<Rightarrow> hstate" where
  "fire_timers e limit [] s = s"
| "fire_timers e limit (t # ts) s = fire_timers e limit ts (fire_timer e limit t s)"

fun settle_all :: "env \<Rightarrow> (string \<times> (js_error + unit)) list \<Rightarrow> hstate \<Rightarrow> hstate" where
  "settle_all e [] s = s"
| "settle_all e (u # us) s = settle_all e us (unlink_settled e (fst u) (snd u) s)"

definition run_due_timers :: "env \<Rightarrow> nat \<Rightarrow> hstate \<Rightarrow> hstate" where
  "run_due_timers e elapsed s =
     fire_timers e (Some elapsed) (filter (timer_due elapsed) (pending s))
       (s\<lparr>pending := filter (\<lambda>t. \<not> timer_due elapsed t) (pending s)\<rparr>)"

section \<open>Configuration (lines 58-73)\<close>

definition config :: jsobject where
  "config = object_literal
     [(''viewport'', JObj (object_literal
         [(''width'', JNum 1200), (''height'', JNum 1800),
          (''deviceScaleFactor'', JNum (8 / 10))])),
      (''pdf'', JObj (object_literal
         [(''scale'', JNum 1),
          (''margin'', JObj (object_literal
             [(''top'', JStr ''20px''), (''right'', JStr ''20px''),
              (''bottom'', JStr ''20px''), (''left'', JStr ''20px'')]))]))]"

text \<open>The own enumerable properties a spread \<open>...v\<close> copies into an object literal.\<close>

fun own_props :: "jsval \<Rightarrow> (string \<times> jsval) list" where
  "own_props (JObj kvs) = kvs"
| "own_props (JArr xs) = zip (map string_of_nat [0..<length xs]) xs"
| "own_props (JStr cs) = zip (map string_of_nat [0..<length cs]) (map (\<lambda>c. JStr [c]) cs)"
| "own_props v = []"

definition launch_options :: jsobject where
  "launch_options = (object_literal
     [(''headless'', JStr ''new''),
      (''args'', JArr [JStr ''--no-sandbox'', JStr ''--disable-setuid-sandbox'',
                       JStr ''--disable-dev-shm-usage'', JStr ''--font-render-hinting=none''])])"

definition goto_options :: jsobject where
  "goto_options = (object_literal
     [(''waitUntil'', JArr [JStr ''networkidle0'', JStr ''load'', JStr ''domcontentloaded'']),
      (''timeout'', JNum 60000)])"

definition pdf_options :: "string \<Rightarrow> jsobject" where
  "pdf_options p = object_literal
     ([(''path'', JStr p), (''format'', JStr ''A4''), (''printBackground'', JBool True)]
      @ own_props (get_prop config ''pdf'')
      @ [(''preferCSSPageSize'', JBool True), (''timeout'', JNum 60000)])"

section \<open>The handler of GET /generate-pdf (lines 74-198)\<close>

text \<open>
  The \<open>try\<close> block is written as one definition per group of statements, each ending
  in the next; a thrown error leaves the block at once with the state reached so far.
  \<open>res.setHeader\<close>, \<open>res.send\<close>, \<open>res.status\<close> and \<open>res.json\<close> do not throw here:
  each path of the handler writes the response once.
\<close>

definition setHeader :: "string \<Rightarrow> jsval \<Rightarrow> hstate \<Rightarrow> hstate" where
  "setHeader k v s = s\<lparr>res_headers := assign (res_headers s) (k, v)\<rparr>"

definition res_send :: "payload \<Rightarrow> hstate \<Rightarrow> hstate" where
  "res_send b s = s\<lparr>res_sent := res_sent s @ [b]\<rparr>"

text \<open>Lines 159-171: headers, body, and the deletion timer with the default delay.\<close>

definition send_pdf :: "string \<Rightarrow> byte list \<Rightarrow> hstate \<Rightarrow> unit result" where
  "send_pdf p pdfBuffer s =
     (let s1 = console_log ''[15] Setting response headers...'' s;
          s2 = setHeader ''Content-Type'' (JStr ''application/pdf'') s1;
          s3 = setHeader ''Content-Disposition'' (JStr ''attachment; filename=generated.pdf'') s2;
          s4 = setHeader ''Content-Length'' (JNum (of_nat (length pdfBuffer))) s3;
          s5 = console_log ''[16] Sending PDF response...'' s4;
          s6 = res_send (SendBuffer pdfBuffer) s5;
          s7 = console_log ''[17] PDF sent successfully'' s6
      in (Inr (), deleteFileAfterDelay p None s7))"

text \<open>\<open>fs.stat\<close> and \<open>fs.readFile\<close>: throw on a fault of the file system or when the
  file is not there; otherwise they read the file the state holds.\<close>

definition fs_stat :: "env \<Rightarrow> string \<Rightarrow> hstate \<Rightarrow> nat result" where
  "fs_stat e p s =
     (let s1 = emit (FsStat p) s in
      case fs_stat_fault e of
        Some err \<Rightarrow> (Inl err, s1)
      | None \<Rightarrow>
          (case files s1 p of
             None \<Rightarrow> (Inl (new_Error e (''ENOENT: no such file or directory, stat '' @ quoted p)), s1)
           | Some bytes \<Rightarrow> (Inr (length bytes), s1)))"

definition fs_readFile :: "env \<Rightarrow> string \<Rightarrow> hstate \<Rightarrow> (byte list) result" where
  "fs_readFile e p s =
     (let s1 = emit (FsReadFile p) s in
      case fs_readFile_fault e of
        Some err \<Rightarrow> (Inl err, s1)
      | None \<Rightarrow>
          (case files s1 p of
             None \<Rightarrow> (Inl (new_Error e (''ENOENT: no such file or directory, open '' @ quoted p)), s1)
           | Some bytes \<Rightarrow> (Inr bytes, s1)))"

text \<open>Lines 148-157: the size check and the read, then the response.\<close>

definition verify_and_send :: "env \<Rightarrow> string \<Rightarrow> hstate \<Rightarrow> unit result" where
  "verify_and_send e p s =
     (case fs_stat e p s of
        (Inl err, s1) \<Rightarrow> (Inl err, s1)
      | (Inr size', s1) \<Rightarrow>
          (let s2 = console_log (''[13.1] PDF file size: '' @ string_of_nat size' @ '' bytes'') s1 in
           if size' = 0 then (Inl (new_Error e ''Generated PDF file is empty''), s2)
           else
             (case fs_readFile e p (console_log ''[14] Reading PDF file...'' s2) of
                (Inl err, s3) \<Rightarrow> (Inl err, s3)
              | (Inr pdfBuffer, s3) \<Rightarrow> send_pdf p pdfBuffer s3)))"

text \<open>Lines 136-146: \<open>page.pdf\<close> writes the document to the temporary path or throws.\<close>

definition export_pdf :: "env \<Rightarrow> string \<Rightarrow> hstate \<Rightarrow> unit result" where
  "export_pdf e p s =
     (let s1 = console_log ''[12] Generating PDF...'' s;
          s2 = emit (PagePdf (pdf_options p)) s1
      in case page_pdf e of
           Inl err \<Rightarrow> (Inl err, s2)
         | Inr bytes \<Rightarrow>
             verify_and_send e p
               (console_log ''[13] PDF generated and saved to temporary file''
                  (s2\<lparr>files := (files s2)(p \<mapsto> bytes)\<rparr>)))"

text \<open>Lines 126-134: the inner \<open>try\<close>/\<open>catch\<close> around the wait for \<open>body\<close>.\<close>

definition wait_for_content :: "env \<Rightarrow> hstate \<Rightarrow> hstate" where
  "wait_for_content e s =
     (let s1 = console_log ''[10] Waiting for dynamic content...'' s;
          s2 = emit (PageWaitForSelector ''body'' (object_literal [(''timeout'', JNum 10000)])) s1;
          s3 = (case page_waitForSelector e of
                  None \<Rightarrow> emit (SettleDelay 3000) s2
                | Some err \<Rightarrow>
                    console_log ''[WARNING] Timeout waiting for content, proceeding anyway...'' s2)
      in console_log ''[11] Wait complete'' s3)"

text \<open>Lines 111-124: the log line with \<open>url\<close> converted once more, navigation and the
  check of its status. Reading the status of a \<open>null\<close> response throws a \<open>TypeError\<close>.\<close>

definition navigate :: "env \<Rightarrow> query_value \<Rightarrow> string \<Rightarrow> hstate \<Rightarrow> unit result" where
  "navigate e url p s =
     (case to_string url of
        None \<Rightarrow> (Inl (new_Error e ''Cannot convert object to primitive value''), s)
      | Some text \<Rightarrow>
          (let s1 = console_log (''[8] Navigating to URL: '' @ text) s;
               s2 = emit (PageGoto url goto_options) s1
           in case page_goto e of
                Inl err \<Rightarrow> (Inl err, s2)
              | Inr None \<Rightarrow>
                  (Inl (new_Error e ''Cannot read properties of null (reading 'status')''), s2)
              | Inr (Some response) \<Rightarrow>
                  (let s3 = console_log
                         (''[9] Page loaded with status: '' @ string_of_nat (resp_status response)) s2
                   in if \<not> resp_ok response then
                        (Inl (new_Error e (''Failed to load page: '' @ string_of_nat (resp_status response))),
                         emit (ConsoleError
                           [LStr (''[ERROR] Failed to load page: '' @ string_of_nat (resp_status response))]) s3)
                      else export_pdf e p (wait_for_content e s3))))"

text \<open>Lines 102-109: the page and its viewport.\<close>

definition open_page :: "env \<Rightarrow> query_value \<Rightarrow> string \<Rightarrow> hstate \<Rightarrow> unit result" where
  "open_page e url p s =
     (let s1 = emit BrowserNewPage (console_log ''[4] Creating new page...'' s) in
      case browser_newPage e of
        Some err \<Rightarrow> (Inl err, s1)
      | None \<Rightarrow>
          (let s2 = console_log ''[6] Setting viewport...'' (console_log ''[5] New page created'' s1);
               s3 = emit (PageSetViewport (get_prop config ''viewport'')) s2
           in case page_setViewport e of
                Some err \<Rightarrow> (Inl err, s3)
              | None \<Rightarrow> navigate e url p (console_log ''[7] Viewport set'' s3)))"

text \<open>Lines 78-100: the check of the parameter, the first log line with its conversion
  of \<open>url\<close> to a string, the temporary path, the browser.\<close>

definition try_block :: "env \<Rightarrow> request \<Rightarrow> hstate \<Rightarrow> unit result" where
  "try_block e req s =
     (let url = query_url req in
      if \<not> truthy url then (Inl (new_Error e ''URL parameter is required''), s)
      else
        (case to_string url of
           None \<Rightarrow> (Inl (new_Error e ''Cannot convert object to primitive value''), s)
         | Some text \<Rightarrow>
             (let s1 = console_log (''[1] Starting PDF generation for URL: '' @ text) s;
                  p = getTempFilePath e;
                  s2 = s1\<lparr>tempFilePath := Some p\<rparr>;
                  s3 = console_log (''[1.1] Will use temporary file: '' @ p) s2;
                  s4 = emit (PuppeteerLaunch launch_options)
                         (console_log ''[2] Launching browser...'' s3)
              in case puppeteer_launch e of
                   Inl err \<Rightarrow> (Inl err, s4)
                 | Inr b \<Rightarrow>
                     open_page e url p
                       (console_log ''[3] Browser launched successfully'' (s4\<lparr>browser := Some b\<rparr>)))))"

text \<open>Lines 173-185. The \<open>stack\<close> property is \<open>undefined\<close> unless \<open>NODE_ENV\<close> is
  \<open>development\<close>; \<open>if (tempFilePath)\<close> holds for a non-empty string.\<close>

definition error_envelope :: "env \<Rightarrow> js_error \<Rightarrow> jsobject" where
  "error_envelope e err = object_literal
     [(''error'', JStr ''Failed to generate PDF''),
      (''message'', JStr (message err)),
      (''stack'', if NODE_ENV e = Some ''development'' then JStr (stack err) else JUndefined)]"

definition res_json :: "jsobject \<Rightarrow> hstate \<Rightarrow> hstate" where
  "res_json obj s = res_send (SendJson (json_stringify obj)) s"

definition catch_block :: "env \<Rightarrow> js_error \<Rightarrow> hstate \<Rightarrow> unit result" where
  "catch_block e err s =
     (let s1 = emit (ConsoleError [LStr ''[ERROR] Error in PDF generation:'', LErr err]) s;
          s2 = emit (ConsoleError [LStr ''[ERROR] Stack trace:'', LStr (stack err)]) s1;
          s3 = res_json (error_envelope e err) (s2\<lparr>res_status := 500\<rparr>)
      in case tempFilePath s3 of
           None \<Rightarrow> (Inr (), s3)
         | Some p \<Rightarrow>
             if p \<noteq> [] then (Inr (), deleteFileAfterDelay p (Some 0) s3) else (Inr (), s3))"

text \<open>Lines 186-197: the browser is closed inside its own \<open>try\<close>/\<open>catch\<close>. While the
  handler waits for \<open>browser.close()\<close> the timers that fall due fire; without a browser
  the block does not wait.\<close>

definition finally_block :: "env \<Rightarrow> hstate \<Rightarrow> unit result" where
  "finally_block e s =
     (case browser s of
        None \<Rightarrow> (Inr (), s)
      | Some b \<Rightarrow>
          (let s1 = emit BrowserClose (console_log ''[CLEANUP] Closing browser...'' s);
               s2 = run_due_timers e (close_elapsed e) s1
           in case browser_close e of
                None \<Rightarrow> (Inr (), console_log ''[CLEANUP] Browser closed'' s2)
              | Some err \<Rightarrow>
                  (Inr (),
                   emit (ConsoleError [LStr ''[CLEANUP ERROR] Failed to close browser:'', LErr err])
                     s2)))"

text \<open>
  \<open>try\<close>/\<open>catch\<close>/\<open>finally\<close>: the \<open>finally\<close> block runs after the \<open>try\<close> block or, when
  that threw, after the \<open>catch\<close> block; an error thrown by the \<open>finally\<close> block
  replaces the outcome, and one thrown by the \<open>catch\<close> block is the outcome.
\<close>

definition try_catch_finally ::
  "(hstate \<Rightarrow> unit result) \<Rightarrow> (js_error \<Rightarrow> hstate \<Rightarrow> unit result) \<Rightarrow> (hstate \<Rightarrow> unit result)
     \<Rightarrow> hstate \<Rightarrow> unit result" where
  "try_catch_finally t c f s =
     (case t s of
        (Inr v, s1) \<Rightarrow>
          (case f s1 of (Inr u, s2) \<Rightarrow> (Inr v, s2) | (Inl err, s2) \<Rightarrow> (Inl err, s2))
      | (Inl err, s1) \<Rightarrow>
          (case c err s1 of
             (r, s2) \<Rightarrow>
               (case f s2 of (Inr u, s3) \<Rightarrow> (r, s3) | (Inl err', s3) \<Rightarrow> (Inl err', s3))))"

definition generate_pdf :: "env \<Rightarrow> request \<Rightarrow> hstate \<Rightarrow> unit result" where
  "generate_pdf e req s = try_catch_finally (try_block e req) (catch_block e) (finally_block e) s"

text \<open>The state after the \<open>try\<close> block and, when it threw, the \<open>catch\<close> block.\<close>

definition settled :: "env \<Rightarrow> request \<Rightarrow> hstate \<Rightarrow> hstate" where
  "settled e req s =
     (case try_block e req s of
        (Inr v, s1) \<Rightarrow> s1
      | (Inl err, s1) \<Rightarrow> snd (catch_block e err s1))"

text \<open>What the \<open>finally\<close> block, with the timers firing inside it, adds to the trace.\<close>

definition cleanup_events :: "env \<Rightarrow> hstate \<Rightarrow> event list" where
  "cleanup_events e s = drop (length (events s)) (events (snd (finally_block e s)))"

text \<open>One request from a fresh state: the outcome of the handler's promise and the
  state it leaves.\<close>

definition run :: "env \<Rightarrow> request \<Rightarrow> (string \<Rightarrow> byte list option) \<Rightarrow> unit result" where
  "run e req fs = generate_pdf e req (initial_state fs)"

definition final :: "env \<Rightarrow> request \<Rightarrow> (string \<Rightarrow> byte list option) \<Rightarrow> hstate" where
  "final e req fs = snd (run e req fs)"

text \<open>The state once the callbacks cut short have resumed and the timers still pending
  when the handler returned have fired too.\<close>

definition complete :: "env \<Rightarrow> request \<Rightarrow> (string \<Rightarrow> byte list option) \<Rightarrow> hstate" where
  "complete e req fs =
     (let s = final e req fs
      in fire_timers e None (pending s)
           (settle_all e (unlinking s) (s\<lparr>pending := [], unlinking := []\<rparr>)))"

section \<open>Observations on a finished request\<close>

definition unlink_calls :: "hstate \<Rightarrow> nat" where
  "unlink_calls s = length (filter (\<lambda>ev. case ev of FsUnlink p \<Rightarrow> True | _ \<Rightarrow> False) (events s))"

definition close_calls :: "hstate \<Rightarrow> nat" where
  "close_calls s = length (filter (\<lambda>ev. ev = BrowserClose) (events s))"

definition launch_calls :: "hstate \<Rightarrow> nat" where
  "launch_calls s = length (filter (\<lambda>ev. case ev of PuppeteerLaunch opts \<Rightarrow> True | _ \<Rightarrow> False) (events s))"

definition pdf_calls :: "hstate \<Rightarrow> nat" where
  "pdf_calls s = length (filter (\<lambda>ev. case ev of PagePdf opts \<Rightarrow> True | _ \<Rightarrow> False) (events s))"

text \<open>Every step before the wait for content succeeded: the parameter is there and has
  a string conversion, the browser and the page were created, and the navigation ended
  with a success status.\<close>

definition reaches_wait :: "env \<Rightarrow> request \<Rightarrow> bool" where
  "reaches_wait e req =
     (truthy (query_url req) \<and> to_string (query_url req) \<noteq> None
      \<and> \<not> isl (puppeteer_launch e) \<and> browser_newPage e = None
      \<and> page_setViewport e = None
      \<and> (case page_goto e of Inr (Some r) \<Rightarrow> resp_ok r | _ \<Rightarrow> False))"

definition settle_delays :: "hstate \<Rightarrow> nat list" where
  "settle_delays s = concat (map (\<lambda>ev. case ev of SettleDelay d \<Rightarrow> [d] | _ \<Rightarrow> []) (events s))"


definition is_failure :: "hstate \<Rightarrow> bool" where
  "is_failure s = (case res_sent s of [SendJson obj] \<Rightarrow> res_status s = 500 | _ \<Rightarrow> False)"

definition is_success :: "hstate \<Rightarrow> bool" where
  "is_success s = (case res_sent s of [SendBuffer b] \<Rightarrow> res_status s = 200 | _ \<Rightarrow> False)"

definition sent_documents :: "hstate \<Rightarrow> byte list list" where
  "sent_documents s = concat (map (\<lambda>b. case b of SendBuffer bs \<Rightarrow> [bs] | SendJson obj \<Rightarrow> []) (res_sent s))"

text \<open>A world in which every step succeeds and the engine writes a three-byte document.\<close>

definition good_env :: env where
  "good_env =
     \<lparr>NODE_ENV = Some ''test'', dirname = ''/app'',
      randomBytes = (\<lambda>n. replicate n 171),
      error_stack = (\<lambda>msg. ''Error: '' @ msg @ ''\<newline>    at server.js''),
      puppeteer_launch = Inr 1, browser_newPage = None, page_setViewport = None,
      page_goto = Inr (Some \<lparr>resp_status = 200, resp_ok = True\<rparr>),
      page_waitForSelector = None, page_pdf = Inr [37, 80, 68],
      fs_stat_fault = None, fs_readFile_fault = None, browser_close = None,
      close_elapsed = 40, unlink_elapsed = 1\<rparr>"

definition good_request :: request where
  "good_request = \<lparr>header_origin = None, query_url = QString ''https://example.com''\<rparr>"

definition no_url_request :: request where
  "no_url_request = \<lparr>header_origin = None, query_url = QUndefined\<rparr>"

definition tostring_request :: request where
  "tostring_request = \<lparr>header_origin = None, query_url = QObject [(''toString'', QString ''x'')]\<rparr>"

definition empty_url_request :: request where
  "empty_url_request = \<lparr>header_origin = None, query_url = QString []\<rparr>"

definition not_found_env :: env where
  "not_found_env = good_env\<lparr>page_goto := Inr (Some \<lparr>resp_status = 404, resp_ok = False\<rparr>)\<rparr>"

definition empty_pdf_env :: env where
  "empty_pdf_env = good_env\<lparr>page_pdf := Inr []\<rparr>"

definition development_env :: env where
  "development_env = good_env\<lparr>NODE_ENV := Some ''development''\<rparr>"

definition boom :: js_error where
  "boom = \<lparr>message = ''boom'', stack = ''Error: boom''\<rparr>"


definition wait_timeout_env :: env where
  "wait_timeout_env = good_env\<lparr>page_waitForSelector := Some boom\<rparr>"

definition launch_fail_env :: env where
  "launch_fail_env = good_env\<lparr>puppeteer_launch := Inl boom\<rparr>"

definition goto_fail_env :: env where
  "goto_fail_env = good_env\<lparr>page_goto := Inl boom\<rparr>"

definition quick_close_env :: env where
  "quick_close_env = goto_fail_env\<lparr>close_elapsed := 1\<rparr>"

section \<open>How the state changes, field by field\<close>

lemma emit_proj [simp]:
  "browser (emit ev s) = browser s"
  "tempFilePath (emit ev s) = tempFilePath s"
  "events (emit ev s) = events s @ [ev]"
  "files (emit ev s) = files s"
  "timers (emit ev s) = timers s"
  "pending (emit ev s) = pending s"
  "unlinking (emit ev s) = unlinking s"
  "res_status (emit ev s) = res_status s"
  "res_headers (emit ev s) = res_headers s"
  "res_sent (emit ev s) = res_sent s"
  by (simp_all add: emit_def)

lemma setHeader_proj [simp]:
  "browser (setHeader k v s) = browser s"
  "tempFilePath (setHeader k v s) = tempFilePath s"
  "events (setHeader k v s) = events s"
  "files (setHeader k v s) = files s"
  "timers (setHeader k v s) = timers s"
  "pending (setHeader k v s) = pending s"
  "unlinking (setHeader k v s) = unlinking s"
  "res_status (setHeader k v s) = res_status s"
  "res_headers (setHeader k v s) = assign (res_headers s) (k, v)"
  "res_sent (setHeader k v s) = res_sent s"
  by (simp_all add: setHeader_def)

lemma res_send_proj [simp]:
  "browser (res_send b s) = browser s"
  "tempFilePath (res_send b s) = tempFilePath s"
  "events (res_send b s) = events s"
  "files (res_send b s) = files s"
  "timers (res_send b s) = timers s"
  "pending (res_send b s) = pending s"
  "unlinking (res_send b s) = unlinking s"
  "res_status (res_send b s) = res_status s"
  "res_headers (res_send b s) = res_headers s"
  "res_sent (res_send b s) = res_sent s @ [b]"
  by (simp_all add: res_send_def)

lemma deleteFileAfterDelay_proj [simp]:
  "browser (deleteFileAfterDelay p d s) = browser s"
  "tempFilePath (deleteFileAfterDelay p d s) = tempFilePath s"
  "events (deleteFileAfterDelay p d s) = events s"
  "files (deleteFileAfterDelay p d s) = files s"
  "timers (deleteFileAfterDelay p d s) = timers s @ [(p, case d of None \<Rightarrow> 5000 | Some n \<Rightarrow> n)]"
  "pending (deleteFileAfterDelay p d s) = pending s @ [(p, case d of None \<Rightarrow> 5000 | Some n \<Rightarrow> n)]"
  "unlinking (deleteFileAfterDelay p d s) = unlinking s"
  "res_status (deleteFileAfterDelay p d s) = res_status s"
  "res_headers (deleteFileAfterDelay p d s) = res_headers s"
  "res_sent (deleteFileAfterDelay p d s) = res_sent s"
  by (simp_all add: deleteFileAfterDelay_def Let_def)

lemma wait_for_content_proj [simp]:
  "browser (wait_for_content e s) = browser s"
  "tempFilePath (wait_for_content e s) = tempFilePath s"
  "files (wait_for_content e s) = files s"
  "timers (wait_for_content e s) = timers s"
  "pending (wait_for_content e s) = pending s"
  "unlinking (wait_for_content e s) = unlinking s"
  "res_status (wait_for_content e s) = res_status s"
  "res_headers (wait_for_content e s) = res_headers s"
  "res_sent (wait_for_content e s) = res_sent s"
  by (simp_all add: wait_for_content_def console_log_def Let_def split: option.splits)

lemma fs_unlink_eq:
  "fs_unlink e p s =
     (case files s p of
        None \<Rightarrow> Inl (new_Error e (''ENOENT: no such file or directory, unlink '' @ quoted p))
      | Some bytes \<Rightarrow> Inr (),
      (emit (FsUnlink p) s)\<lparr>files := (files s)(p := None)\<rparr>)"
  by (simp add: fs_unlink_def Let_def fun_upd_idem split: option.splits)

lemma unlink_settled_proj [simp]:
  "browser (unlink_settled e p r s) = browser s"
  "tempFilePath (unlink_settled e p r s) = tempFilePath s"
  "files (unlink_settled e p r s) = files s"
  "timers (unlink_settled e p r s) = timers s"
  "pending (unlink_settled e p r s) = pending s"
  "unlinking (unlink_settled e p r s) = unlinking s"
  "res_status (unlink_settled e p r s) = res_status s"
  "res_headers (unlink_settled e p r s) = res_headers s"
  "res_sent (unlink_settled e p r s) = res_sent s"
  by (simp_all add: unlink_settled_def console_log_def split: sum.splits)

lemma initial_state_proj [simp]:
  "browser (initial_state fs) = None" "tempFilePath (initial_state fs) = None"
  "events (initial_state fs) = []" "files (initial_state fs) = fs"
  "timers (initial_state fs) = []" "pending (initial_state fs) = []"
  "unlinking (initial_state fs) = []" "res_status (initial_state fs) = 200"
  "res_headers (initial_state fs) = []" "res_sent (initial_state fs) = []"
  by (simp_all add: initial_state_def)

lemma wait_for_content_events:
  "events (wait_for_content e s) =
     events s @
       [ConsoleLog [LStr ''[10] Waiting for dynamic content...''],
        PageWaitForSelector ''body'' (object_literal [(''timeout'', JNum 10000)]),
        (case page_waitForSelector e of
           None \<Rightarrow> SettleDelay 3000
         | Some err \<Rightarrow>
             ConsoleLog [LStr ''[WARNING] Timeout waiting for content, proceeding anyway...'']),
        ConsoleLog [LStr ''[11] Wait complete'']]"
  by (simp add: wait_for_content_def console_log_def Let_def split: option.splits)

lemma unlink_settled_events:
  "events (unlink_settled e p r s) =
     events s @
       [case r of
          Inr u \<Rightarrow> ConsoleLog [LStr (''[CLEANUP] Deleted temporary file: '' @ p)]
        | Inl err \<Rightarrow>
            ConsoleError [LStr (''[ERROR] Failed to delete temporary file: '' @ p), LErr err]]"
  by (simp add: unlink_settled_def console_log_def split: sum.splits)

text \<open>Firing timers touches the files, the trace and the list of unsettled calls only.\<close>

lemma fire_timer_proj [simp]:
  "browser (fire_timer e limit t s) = browser s"
  "tempFilePath (fire_timer e limit t s) = tempFilePath s"
  "timers (fire_timer e limit t s) = timers s"
  "pending (fire_timer e limit t s) = pending s"
  "res_status (fire_timer e limit t s) = res_status s"
  "res_headers (fire_timer e limit t s) = res_headers s"
  "res_sent (fire_timer e limit t s) = res_sent s"
  by (simp_all add: fire_timer_def fs_unlink_eq)

lemma fire_timer_events:
  "events (fire_timer e limit t s) =
     events s @ FsUnlink (fst t) #
       (if settles_within e limit t
        then [case files s (fst t) of
                Some bytes \<Rightarrow>
                  ConsoleLog [LStr (''[CLEANUP] Deleted temporary file: '' @ fst t)]
              | None \<Rightarrow>
                  ConsoleError
                    [LStr (''[ERROR] Failed to delete temporary file: '' @ fst t),
                     LErr (new_Error e
                       (''ENOENT: no such file or directory, unlink '' @ quoted (fst t)))]]
        else [])"
  by (simp add: fire_timer_def fs_unlink_eq unlink_settled_events split: option.splits)

lemma fire_timers_proj [simp]:
  "browser (fire_timers e limit ts s) = browser s"
  "tempFilePath (fire_timers e limit ts s) = tempFilePath s"
  "timers (fire_timers e limit ts s) = timers s"
  "pending (fire_timers e limit ts s) = pending s"
  "res_status (fire_timers e limit ts s) = res_status s"
  "res_headers (fire_timers e limit ts s) = res_headers s"
  "res_sent (fire_timers e limit ts s) = res_sent s"
  by (induction ts arbitrary: s; simp)+

lemma settle_all_proj [simp]:
  "browser (settle_all e us s) = browser s"
  "tempFilePath (settle_all e us s) = tempFilePath s"
  "files (settle_all e us s) = files s"
  "timers (settle_all e us s) = timers s"
  "pending (settle_all e us s) = pending s"
  "unlinking (settle_all e us s) = unlinking s"
  "res_status (settle_all e us s) = res_status s"
  "res_headers (settle_all e us s) = res_headers s"
  "res_sent (settle_all e us s) = res_sent s"
  by (induction us arbitrary: s; simp)+

lemma run_due_timers_proj [simp]:
  "browser (run_due_timers e elapsed s) = browser s"
  "tempFilePath (run_due_timers e elapsed s) = tempFilePath s"
  "timers (run_due_timers e elapsed s) = timers s"
  "res_status (run_due_timers e elapsed s) = res_status s"
  "res_headers (run_due_timers e elapsed s) = res_headers s"
  "res_sent (run_due_timers e elapsed s) = res_sent s"
  by (simp_all add: run_due_timers_def)

text \<open>The trace only grows, and timers add no call of the browser or the page to it.\<close>

lemma fire_timers_prefix: "prefix (events s) (events (fire_timers e limit ts s))"
proof (induction ts arbitrary: s)
  case Nil
  show ?case by simp
next
  case (Cons t ts)
  have "prefix (events s) (events (fire_timer e limit t s))"
    by (simp add: fire_timer_events)
  with Cons.IH [of "fire_timer e limit t s"] show ?case
    by (auto intro: prefix_order.trans)
qed

lemma settle_all_prefix: "prefix (events s) (events (settle_all e us s))"
proof (induction us arbitrary: s)
  case Nil
  show ?case by simp
next
  case (Cons u us)
  have "prefix (events s) (events (unlink_settled e (fst u) (snd u) s))"
    by (simp add: unlink_settled_events)
  with Cons.IH [of "unlink_settled e (fst u) (snd u) s"] show ?case
    by (auto intro: prefix_order.trans)
qed


lemma close_calls_simps [simp]:
  "close_calls (emit ev s) = close_calls s + (if ev = BrowserClose then 1 else 0)"
  "close_calls (setHeader k v s) = close_calls s"
  "close_calls (res_send b s) = close_calls s"
  "close_calls (deleteFileAfterDelay p d s) = close_calls s"
  "close_calls (s\<lparr>browser := x\<rparr>) = close_calls s"
  "close_calls (s\<lparr>tempFilePath := y\<rparr>) = close_calls s"
  "close_calls (s\<lparr>files := z\<rparr>) = close_calls s"
  "close_calls (s\<lparr>pending := ts\<rparr>) = close_calls s"
  "close_calls (s\<lparr>unlinking := us\<rparr>) = close_calls s"
  "close_calls (s\<lparr>res_status := n\<rparr>) = close_calls s"
  "close_calls (initial_state fs) = 0"
  "close_calls (wait_for_content e s) = close_calls s"
  "close_calls (fire_timer e limit t s) = close_calls s"
  "close_calls (unlink_settled e p r s) = close_calls s"
  by (simp_all add: close_calls_def wait_for_content_events unlink_settled_events fire_timer_events
      split: option.splits sum.splits)

lemma pdf_calls_simps [simp]:
  "pdf_calls (emit ev s) = pdf_calls s + (case ev of PagePdf opts \<Rightarrow> 1 | _ \<Rightarrow> 0)"
  "pdf_calls (setHeader k v s) = pdf_calls s"
  "pdf_calls (res_send b s) = pdf_calls s"
  "pdf_calls (deleteFileAfterDelay p d s) = pdf_calls s"
  "pdf_calls (s\<lparr>browser := x\<rparr>) = pdf_calls s"
  "pdf_calls (s\<lparr>tempFilePath := y\<rparr>) = pdf_calls s"
  "pdf_calls (s\<lparr>files := z\<rparr>) = pdf_calls s"
  "pdf_calls (s\<lparr>pending := ts\<rparr>) = pdf_calls s"
  "pdf_calls (s\<lparr>unlinking := us\<rparr>) = pdf_calls s"
  "pdf_calls (s\<lparr>res_status := n\<rparr>) = pdf_calls s"
  "pdf_calls (initial_state fs) = 0"
  "pdf_calls (wait_for_content e s) = pdf_calls s"
  "pdf_calls (fire_timer e limit t s) = pdf_calls s"
  "pdf_calls (unlink_settled e p r s) = pdf_calls s"
  by (simp_all add: pdf_calls_def wait_for_content_events unlink_settled_events fire_timer_events
      split: event.splits option.splits sum.splits)

lemma settle_delays_simps [simp]:
  "settle_delays (emit ev s) = settle_delays s @ (case ev of SettleDelay d \<Rightarrow> [d] | _ \<Rightarrow> [])"
  "settle_delays (setHeader k v s) = settle_delays s"
  "settle_delays (res_send b s) = settle_delays s"
  "settle_delays (deleteFileAfterDelay p d s) = settle_delays s"
  "settle_delays (s\<lparr>browser := x\<rparr>) = settle_delays s"
  "settle_delays (s\<lparr>tempFilePath := y\<rparr>) = settle_delays s"
  "settle_delays (s\<lparr>files := z\<rparr>) = settle_delays s"
  "settle_delays (s\<lparr>pending := ts\<rparr>) = settle_delays s"
  "settle_delays (s\<lparr>unlinking := us\<rparr>) = settle_delays s"
  "settle_delays (s\<lparr>res_status := n\<rparr>) = settle_delays s"
  "settle_delays (initial_state fs) = []"
  "settle_delays (wait_for_content e s) =
     settle_delays s @ (case page_waitForSelector e of None \<Rightarrow> [3000] | Some err \<Rightarrow> [])"
  "settle_delays (fire_timer e limit t s) = settle_delays s"
  "settle_delays (unlink_settled e p r s) = settle_delays s"
  by (simp_all add: settle_delays_def wait_for_content_events unlink_settled_events fire_timer_events
      split: event.splits option.splits sum.splits)

lemma unlink_calls_simps [simp]:
  "unlink_calls (emit ev s) = unlink_calls s + (case ev of FsUnlink p \<Rightarrow> 1 | _ \<Rightarrow> 0)"
  "unlink_calls (setHeader k v s) = unlink_calls s"
  "unlink_calls (res_send b s) = unlink_calls s"
  "unlink_calls (deleteFileAfterDelay p d s) = unlink_calls s"
  "unlink_calls (s\<lparr>browser := x\<rparr>) = unlink_calls s"
  "unlink_calls (s\<lparr>tempFilePath := y\<rparr>) = unlink_calls s"
  "unlink_calls (s\<lparr>files := z\<rparr>) = unlink_calls s"
  "unlink_calls (s\<lparr>res_status := n\<rparr>) = unlink_calls s"
  "unlink_calls (initial_state fs) = 0"
  "unlink_calls (wait_for_content e s) = unlink_calls s"
  "unlink_calls (s\<lparr>pending := ts\<rparr>) = unlink_calls s"
  "unlink_calls (s\<lparr>unlinking := us\<rparr>) = unlink_calls s"
  "unlink_calls (fire_timer e limit t s) = unlink_calls s + 1"
  "unlink_calls (unlink_settled e p r s) = unlink_calls s"
  by (simp_all add: unlink_calls_def unlink_settled_events fire_timer_events wait_for_content_events
      split: event.splits sum.splits option.splits)

lemma fire_timers_calls [simp]:
  "close_calls (fire_timers e limit ts s) = close_calls s"
  "pdf_calls (fire_timers e limit ts s) = pdf_calls s"
  "settle_delays (fire_timers e limit ts s) = settle_delays s"
  "unlink_calls (fire_timers e limit ts s) = unlink_calls s + length ts"
  by (induction ts arbitrary: s; simp)+

lemma settle_all_calls [simp]:
  "close_calls (settle_all e us s) = close_calls s"
  "pdf_calls (settle_all e us s) = pdf_calls s"
  "settle_delays (settle_all e us s) = settle_delays s"
  "unlink_calls (settle_all e us s) = unlink_calls s"
  by (induction us arbitrary: s; simp)+

lemma run_due_timers_calls [simp]:
  "close_calls (run_due_timers e elapsed s) = close_calls s"
  "pdf_calls (run_due_timers e elapsed s) = pdf_calls s"
  "settle_delays (run_due_timers e elapsed s) = settle_delays s"
  by (simp_all add: run_due_timers_def)

lemma run_due_timers_prefix: "prefix (events s) (events (run_due_timers e elapsed s))"
  using fire_timers_prefix [of "s\<lparr>pending := filter (\<lambda>t. \<not> timer_due elapsed t) (pending s)\<rparr>"]
  by (simp add: run_due_timers_def)

lemma path_normalize_nonempty: "path_normalize p \<noteq> []"
  by (cases p) (simp_all add: path_normalize_def Let_def)

lemma path_join_nonempty [simp]: "path_join a b \<noteq> []"
  by (simp add: path_join_def path_normalize_nonempty Let_def)

lemma getTempFilePath_nonempty [simp]: "getTempFilePath e \<noteq> []"
  by (simp add: getTempFilePath_def Let_def)

section \<open>The \<open>catch\<close> and \<open>finally\<close> blocks never throw\<close>

lemma finally_block_fst [simp]: "fst (finally_block e s) = Inr ()"
  by (simp add: finally_block_def Let_def split: option.splits)

lemma catch_block_fst [simp]: "fst (catch_block e err s) = Inr ()"
  by (simp add: catch_block_def Let_def split: option.splits)

lemma generate_pdf_eq:
  "generate_pdf e req s = (Inr (), snd (finally_block e (settled e req s)))"
proof (cases "try_block e req s")
  case (Pair r s1)
  obtain u s2 where f: "finally_block e (settled e req s) = (u, s2)"
    by (cases "finally_block e (settled e req s)")
  with finally_block_fst [of e "settled e req s"] have u: "u = Inr ()" by simp
  show ?thesis
  proof (cases r)
    case (Inr v)
    with Pair f u show ?thesis
      by (simp add: generate_pdf_def try_catch_finally_def settled_def)
  next
    case (Inl err)
    obtain r' s' where c: "catch_block e err s1 = (r', s')"
      by (cases "catch_block e err s1")
    with catch_block_fst [of e err s1] have "r' = Inr ()" by simp
    with Pair Inl c f u show ?thesis
      by (simp add: generate_pdf_def try_catch_finally_def settled_def)
  qed
qed

lemma final_eq: "final e req fs = snd (finally_block e (settled e req (initial_state fs)))"
  by (simp add: final_def run_def generate_pdf_eq)

lemma finally_block_frame [simp]:
  "browser (snd (finally_block e s)) = browser s"
  "tempFilePath (snd (finally_block e s)) = tempFilePath s"
  "timers (snd (finally_block e s)) = timers s"
  "res_status (snd (finally_block e s)) = res_status s"
  "res_headers (snd (finally_block e s)) = res_headers s"
  "res_sent (snd (finally_block e s)) = res_sent s"
  by (simp_all add: finally_block_def console_log_def Let_def split: option.splits)

lemma finally_block_no_browser: "browser s = None \<Longrightarrow> snd (finally_block e s) = s"
  by (simp add: finally_block_def)

lemma finally_block_calls [simp]:
  "close_calls (snd (finally_block e s)) = close_calls s + (if browser s = None then 0 else 1)"
  "pdf_calls (snd (finally_block e s)) = pdf_calls s"
  "settle_delays (snd (finally_block e s)) = settle_delays s"
  by (simp_all add: finally_block_def console_log_def Let_def split: option.splits)

lemma finally_block_prefix: "prefix (events s) (events (snd (finally_block e s)))"
proof (cases "browser s")
  case None
  then show ?thesis by (simp add: finally_block_no_browser)
next
  case (Some b)
  let ?s1 = "emit BrowserClose (console_log ''[CLEANUP] Closing browser...'' s)"
  have "prefix (events s) (events ?s1)"
    by (simp add: console_log_def)
  moreover have "prefix (events ?s1) (events (run_due_timers e (close_elapsed e) ?s1))"
    by (rule run_due_timers_prefix)
  ultimately have "prefix (events s) (events (run_due_timers e (close_elapsed e) ?s1))"
    by (rule prefix_order.trans)
  with Some show ?thesis
    by (simp add: finally_block_def console_log_def Let_def prefix_def split: option.splits)
      (metis append.assoc)
qed

lemma finally_block_events:
  "events (snd (finally_block e s)) = events s @ cleanup_events e s"
  using finally_block_prefix [of s e] by (auto simp: cleanup_events_def prefix_def)

lemma finally_block_close_failed:
  "browser s = Some b \<Longrightarrow> browser_close e = Some err \<Longrightarrow>
   suffix [ConsoleError [LStr ''[CLEANUP ERROR] Failed to close browser:'', LErr err]]
     (events (snd (finally_block e s)))"
  by (simp add: finally_block_def Let_def suffix_def)

section \<open>The paths through the \<open>try\<close> block\<close>

text \<open>
  The \<open>try\<close> block leaves at the first step that throws. These are all its paths, from
  the missing parameter to the document sent.
\<close>

lemmas stage_defs = settled_def try_block_def open_page_def navigate_def export_pdf_def
  verify_and_send_def fs_stat_def fs_readFile_def send_pdf_def catch_block_def res_json_def
  console_log_def Let_def

lemma scenarios [case_names no_url no_string launch_fail newPage_fail viewport_fail goto_fail goto_null
    not_ok pdf_fail stat_fault empty read_fault success]:
  assumes "\<not> truthy (query_url req) \<Longrightarrow> P"
    and "truthy (query_url req) \<Longrightarrow> to_string (query_url req) = None \<Longrightarrow> P"
    and "\<And>text err. truthy (query_url req) \<Longrightarrow> to_string (query_url req) = Some text \<Longrightarrow> puppeteer_launch e = Inl err \<Longrightarrow> P"
    and "\<And>text b err. truthy (query_url req) \<Longrightarrow> to_string (query_url req) = Some text \<Longrightarrow> puppeteer_launch e = Inr b \<Longrightarrow>
           browser_newPage e = Some err \<Longrightarrow> P"
    and "\<And>text b err. truthy (query_url req) \<Longrightarrow> to_string (query_url req) = Some text \<Longrightarrow> puppeteer_launch e = Inr b \<Longrightarrow>
           browser_newPage e = None \<Longrightarrow> page_setViewport e = Some err \<Longrightarrow> P"
    and "\<And>text b err. truthy (query_url req) \<Longrightarrow> to_string (query_url req) = Some text \<Longrightarrow> puppeteer_launch e = Inr b \<Longrightarrow>
           browser_newPage e = None \<Longrightarrow> page_setViewport e = None \<Longrightarrow>
           page_goto e = Inl err \<Longrightarrow> P"
    and "\<And>text b. truthy (query_url req) \<Longrightarrow> to_string (query_url req) = Some text \<Longrightarrow> puppeteer_launch e = Inr b \<Longrightarrow>
           browser_newPage e = None \<Longrightarrow> page_setViewport e = None \<Longrightarrow>
           page_goto e = Inr None \<Longrightarrow> P"
    and "\<And>text b r. truthy (query_url req) \<Longrightarrow> to_string (query_url req) = Some text \<Longrightarrow> puppeteer_launch e = Inr b \<Longrightarrow>
           browser_newPage e = None \<Longrightarrow> page_setViewport e = None \<Longrightarrow>
           page_goto e = Inr (Some r) \<Longrightarrow> \<not> resp_ok r \<Longrightarrow> P"
    and "\<And>text b r err. truthy (query_url req) \<Longrightarrow> to_string (query_url req) = Some text \<Longrightarrow> puppeteer_launch e = Inr b \<Longrightarrow>
           browser_newPage e = None \<Longrightarrow> page_setViewport e = None \<Longrightarrow>
           page_goto e = Inr (Some r) \<Longrightarrow> resp_ok r \<Longrightarrow> page_pdf e = Inl err \<Longrightarrow> P"
    and "\<And>text b r bytes err. truthy (query_url req) \<Longrightarrow> to_string (query_url req) = Some text \<Longrightarrow> puppeteer_launch e = Inr b \<Longrightarrow>
           browser_newPage e = None \<Longrightarrow> page_setViewport e = None \<Longrightarrow>
           page_goto e = Inr (Some r) \<Longrightarrow> resp_ok r \<Longrightarrow> page_pdf e = Inr bytes \<Longrightarrow>
           fs_stat_fault e = Some err \<Longrightarrow> P"
    and "\<And>text b r. truthy (query_url req) \<Longrightarrow> to_string (query_url req) = Some text \<Longrightarrow> puppeteer_launch e = Inr b \<Longrightarrow>
           browser_newPage e = None \<Longrightarrow> page_setViewport e = None \<Longrightarrow>
           page_goto e = Inr (Some r) \<Longrightarrow> resp_ok r \<Longrightarrow> page_pdf e = Inr [] \<Longrightarrow>
           fs_stat_fault e = None \<Longrightarrow> P"
    and "\<And>text b r bytes err. truthy (query_url req) \<Longrightarrow> to_string (query_url req) = Some text \<Longrightarrow> puppeteer_launch e = Inr b \<Longrightarrow>
           browser_newPage e = None \<Longrightarrow> page_setViewport e = None \<Longrightarrow>
           page_goto e = Inr (Some r) \<Longrightarrow> resp_ok r \<Longrightarrow> page_pdf e = Inr bytes \<Longrightarrow>
           bytes \<noteq> [] \<Longrightarrow> fs_stat_fault e = None \<Longrightarrow> fs_readFile_fault e = Some err \<Longrightarrow> P"
    and "\<And>text b r bytes. truthy (query_url req) \<Longrightarrow> to_string (query_url req) = Some text \<Longrightarrow> puppeteer_launch e = Inr b \<Longrightarrow>
           browser_newPage e = None \<Longrightarrow> page_setViewport e = None \<Longrightarrow>
           page_goto e = Inr (Some r) \<Longrightarrow> resp_ok r \<Longrightarrow> page_pdf e = Inr bytes \<Longrightarrow>
           bytes \<noteq> [] \<Longrightarrow> fs_stat_fault e = None \<Longrightarrow> fs_readFile_fault e = None \<Longrightarrow> P"
  shows P
proof (cases "truthy (query_url req)")
  case False
  then show ?thesis by (rule assms(1))
next
  case truthy_url: True
  show ?thesis
  proof (cases "to_string (query_url req)")
    case None
    with truthy_url show ?thesis by (rule assms(2))
  next
    case (Some str)
    with truthy_url have url: "truthy (query_url req) \<and> to_string (query_url req) = Some str"
      by simp
  show ?thesis
  proof (cases "puppeteer_launch e")
    case (Inl err)
    with url show ?thesis by (simp add: assms(3))
  next
    case launch: (Inr b)
    show ?thesis
    proof (cases "browser_newPage e")
      case (Some err)
      with url launch show ?thesis by (simp add: assms(4))
    next
      case page: None
      show ?thesis
      proof (cases "page_setViewport e")
        case (Some err)
        with url launch page show ?thesis by (simp add: assms(5))
      next
        case vp: None
        show ?thesis
        proof (cases "page_goto e")
          case (Inl err)
          with url launch page vp show ?thesis by (simp add: assms(6))
        next
          case (Inr ro)
          show ?thesis
          proof (cases ro)
            case None
            with Inr url launch page vp show ?thesis by (simp add: assms(7))
          next
            case (Some r)
            with Inr have nav: "page_goto e = Inr (Some r)" by simp
            show ?thesis
            proof (cases "resp_ok r")
              case False
              with url launch page vp nav show ?thesis by (simp add: assms(8))
            next
              case ok: True
              show ?thesis
              proof (cases "page_pdf e")
                case (Inl err)
                with url launch page vp nav ok show ?thesis by (simp add: assms(9))
              next
                case pdf: (Inr bytes)
                show ?thesis
                proof (cases "fs_stat_fault e")
                  case (Some err)
                  with url launch page vp nav ok pdf show ?thesis by (simp add: assms(10))
                next
                  case st: None
                  show ?thesis
                  proof (cases "bytes = []")
                    case True
                    with url launch page vp nav ok pdf st show ?thesis by (simp add: assms(11))
                  next
                    case ne: False
                    show ?thesis
                    proof (cases "fs_readFile_fault e")
                      case (Some err)
                      with url launch page vp nav ok pdf st ne show ?thesis
                        by (simp add: assms(12))
                    next
                      case None
                      with url launch page vp nav ok pdf st ne show ?thesis
                        by (simp add: assms(13))
                    qed
                  qed
                qed
              qed
            qed
          qed
        qed
      qed
    qed
  qed
qed
qed

text \<open>Nothing before the \<open>finally\<close> block looks at how closing the browser will end.\<close>

lemma settled_browser_close:
  "settled (e\<lparr>browser_close := c\<rparr>) req s = settled e req s"
  by (simp add: stage_defs wait_for_content_def new_Error_def getTempFilePath_def tempDir_def
      error_envelope_def cong: sum.case_cong option.case_cong prod.case_cong if_cong)

section \<open>Teardown of the browser\<close>

lemma finally_block_close_called:
  assumes "browser s = Some b"
  shows "sublist [ConsoleLog [LStr ''[CLEANUP] Closing browser...''], BrowserClose]
           (events (snd (finally_block e s)))"
proof -
  let ?s1 = "emit BrowserClose (emit (ConsoleLog [LStr ''[CLEANUP] Closing browser...'']) s)"
  obtain rest where r: "events (run_due_timers e (close_elapsed e) ?s1) = events ?s1 @ rest"
    using run_due_timers_prefix [of ?s1 e "close_elapsed e"] by (auto simp: prefix_def)
  have s1: "events ?s1 = events s @ [ConsoleLog [LStr ''[CLEANUP] Closing browser...''], BrowserClose]"
    by simp
  from assms have "\<exists>tail. events (snd (finally_block e s)) =
       events s @ [ConsoleLog [LStr ''[CLEANUP] Closing browser...''], BrowserClose] @ tail"
    by (cases "browser_close e") (simp_all add: finally_block_def Let_def r s1 console_log_def)
  then show ?thesis
    by (metis sublist_appendI)
qed

text \<open>
  C1. Whenever the handler has created a browser (the variable \<open>browser\<close> holds one,
  which is the case exactly when the parameter was given, its conversion to a string
  for the first log line did not throw, and \<open>puppeteer.launch\<close> returned),
  \<open>browser.close\<close> is called exactly once, whatever path the \<open>try\<close> block took; without
  a browser it is not called. The handler's promise always resolves: an error thrown
  by \<open>browser.close\<close> is caught, it is logged by \<open>console.error\<close> as the last event of
  the handler, and the response (body, status, headers) and the deletion timers are
  the same whether closing succeeds or throws.
\<close>

theorem C1_teardown_exactly_once:
  "close_calls (final e req fs) = (if browser (final e req fs) = None then 0 else 1)
   \<and> (browser (final e req fs) \<noteq> None)
       = (truthy (query_url req) \<and> to_string (query_url req) \<noteq> None
          \<and> \<not> isl (puppeteer_launch e))
   \<and> fst (run e req fs) = Inr ()
   \<and> res_sent (final (e\<lparr>browser_close := c\<rparr>) req fs) = res_sent (final e req fs)
   \<and> res_status (final (e\<lparr>browser_close := c\<rparr>) req fs) = res_status (final e req fs)
   \<and> res_headers (final (e\<lparr>browser_close := c\<rparr>) req fs) = res_headers (final e req fs)
   \<and> timers (final (e\<lparr>browser_close := c\<rparr>) req fs) = timers (final e req fs)
   \<and> (browser (final e req fs) \<noteq> None \<longrightarrow>
        sublist [ConsoleLog [LStr ''[CLEANUP] Closing browser...''], BrowserClose]
          (events (final e req fs)))
   \<and> (browser (final e req fs) \<noteq> None \<longrightarrow> browser_close e = Some err \<longrightarrow>
        suffix [ConsoleError [LStr ''[CLEANUP ERROR] Failed to close browser:'', LErr err]]
          (events (final e req fs)))"
proof -
  have calls: "close_calls (final e req fs) = (if browser (final e req fs) = None then 0 else 1)"
    by (cases rule: scenarios [where e = e and req = req]; simp add: final_eq stage_defs)
  have created: "(browser (final e req fs) \<noteq> None)
       = (truthy (query_url req) \<and> to_string (query_url req) \<noteq> None
          \<and> \<not> isl (puppeteer_launch e))"
    by (cases rule: scenarios [where e = e and req = req]; simp add: final_eq stage_defs)
  have resolves: "fst (run e req fs) = Inr ()"
    by (simp add: run_def generate_pdf_eq)
  have same: "settled (e\<lparr>browser_close := c\<rparr>) req (initial_state fs) = settled e req (initial_state fs)"
    by (rule settled_browser_close)
  have called: "sublist [ConsoleLog [LStr ''[CLEANUP] Closing browser...''], BrowserClose]
      (events (final e req fs))" if "browser (final e req fs) \<noteq> None"
  proof -
    from that obtain b where "browser (settled e req (initial_state fs)) = Some b"
      by (auto simp: final_eq)
    then show ?thesis
      unfolding final_eq by (rule finally_block_close_called)
  qed
  have logged: "suffix [ConsoleError [LStr ''[CLEANUP ERROR] Failed to close browser:'', LErr err]]
      (events (final e req fs))"
    if "browser (final e req fs) \<noteq> None" and "browser_close e = Some err"
  proof -
    from that(1) obtain b where "browser (settled e req (initial_state fs)) = Some b"
      by (auto simp: final_eq)
    from this that(2) show ?thesis
      unfolding final_eq by (rule finally_block_close_failed)
  qed
  from calls created resolves same called logged show ?thesis
    by (simp add: final_eq)
qed

theorem C1_teardown_witness:
  "browser (final (good_env\<lparr>browser_close := Some boom\<rparr>) good_request Map.empty) = Some 1
   \<and> close_calls (final (good_env\<lparr>browser_close := Some boom\<rparr>) good_request Map.empty) = 1
   \<and> fst (run (good_env\<lparr>browser_close := Some boom\<rparr>) good_request Map.empty) = Inr ()
   \<and> res_sent (final (good_env\<lparr>browser_close := Some boom\<rparr>) good_request Map.empty)
       = res_sent (final good_env good_request Map.empty)
   \<and> suffix [ConsoleError [LStr ''[CLEANUP ERROR] Failed to close browser:'', LErr boom]]
        (events (final (good_env\<lparr>browser_close := Some boom\<rparr>) good_request Map.empty))"
proof -
  have b: "browser (final (good_env\<lparr>browser_close := Some boom\<rparr>) good_request Map.empty) = Some 1"
    by (simp add: final_eq stage_defs good_env_def good_request_def)
  have c: "browser_close (good_env\<lparr>browser_close := Some boom\<rparr>) = Some boom"
    by simp
  have u: "good_env\<lparr>browser_close := browser_close good_env\<rparr> = good_env"
    by simp
  from b c u
    C1_teardown_exactly_once [where e = "good_env\<lparr>browser_close := Some boom\<rparr>"
      and req = good_request and fs = Map.empty and c = "browser_close good_env" and err = boom]
  show ?thesis by simp
qed

section \<open>Scheduling the deletion of the temporary file\<close>

text \<open>
  C2, as amended. The temporary path is allocated only after the \<open>url\<close> parameter has
  been found present and non-empty and has been converted to a string for the first
  log line. For every request that gets that far exactly one deletion timer is set, for
  the allocated path: with the default delay of 5000 ms when the document was sent,
  with delay 0 on every failure. A request that fails before (the parameter is absent
  or empty, or its conversion to a string throws, as for \<open>?url[toString]=x\<close>) has no
  path and sets no timer. Every request ends either with the document sent or with the
  failure response, never both.
\<close>

theorem C2_deletion_scheduled:
  "timers (final e req fs) =
     (if truthy (query_url req) \<and> to_string (query_url req) \<noteq> None
      then (if is_success (final e req fs) then [(getTempFilePath e, 5000)]
            else [(getTempFilePath e, 0)])
      else [])
   \<and> tempFilePath (final e req fs) =
     (if truthy (query_url req) \<and> to_string (query_url req) \<noteq> None
      then Some (getTempFilePath e) else None)
   \<and> is_success (final e req fs) \<noteq> is_failure (final e req fs)"
  by (cases rule: scenarios [where e = e and req = req];
      simp add: final_eq stage_defs is_success_def is_failure_def)

theorem C2_deletion_scheduled_witness:
  "timers (final good_env good_request Map.empty) = [(getTempFilePath good_env, 5000)]
   \<and> timers (final launch_fail_env good_request Map.empty) = [(getTempFilePath good_env, 0)]
   \<and> timers (final good_env empty_url_request Map.empty) = []
   \<and> timers (final good_env tostring_request Map.empty) = []"
proof -
  have s: "is_success (final good_env good_request Map.empty)"
    by (simp add: final_eq stage_defs is_success_def good_env_def good_request_def)
  have f: "\<not> is_success (final launch_fail_env good_request Map.empty)"
    by (simp add: final_eq stage_defs is_success_def launch_fail_env_def good_request_def)
  have u: "truthy (query_url good_request)" "to_string (query_url good_request) \<noteq> None"
    "\<not> truthy (query_url empty_url_request)" "to_string (query_url tostring_request) = None"
    by (simp_all add: good_request_def empty_url_request_def tostring_request_def)
  have p: "getTempFilePath launch_fail_env = getTempFilePath good_env"
    by (simp add: getTempFilePath_def tempDir_def launch_fail_env_def)
  from s f u p C2_deletion_scheduled [of good_env good_request Map.empty]
    C2_deletion_scheduled [of launch_fail_env good_request Map.empty]
    C2_deletion_scheduled [of good_env empty_url_request Map.empty]
    C2_deletion_scheduled [of good_env tostring_request Map.empty]
  show ?thesis by simp
qed

text \<open>
  The claim as stated asks for exactly one scheduled deletion on every request. A request
  without the \<open>url\<close> parameter fails and schedules none.
\<close>

theorem C2_deletion_scheduled_counterexample:
  "is_failure (final good_env no_url_request Map.empty)
   \<and> length (timers (final good_env no_url_request Map.empty)) \<noteq> 1"
  by (simp add: final_eq stage_defs is_failure_def no_url_request_def)

section \<open>The missing parameter\<close>

text \<open>
  C3. When the \<open>url\<close> query parameter is absent or the empty string, the response has
  status 500 and a JSON body whose \<open>error\<close> is \<open>Failed to generate PDF\<close> and whose
  \<open>message\<close> is \<open>URL parameter is required\<close> (the \<open>stack\<close> property is governed by
  \<open>NODE_ENV\<close>, see C6). The only events of the request are the two \<open>console.error\<close>
  lines of the \<open>catch\<close> block: puppeteer is never launched, no temporary path is
  allocated, no timer is set and no file is touched.
\<close>

theorem C3_missing_url:
  "query_url req = QUndefined \<or> query_url req = QString [] \<Longrightarrow>
   res_status (final e req fs) = 500
   \<and> res_sent (final e req fs) =
       [SendJson (json_stringify (error_envelope e (new_Error e ''URL parameter is required'')))]
   \<and> get_prop (json_stringify (error_envelope e (new_Error e ''URL parameter is required'')))
         ''error'' = JStr ''Failed to generate PDF''
   \<and> get_prop (json_stringify (error_envelope e (new_Error e ''URL parameter is required'')))
         ''message'' = JStr ''URL parameter is required''
   \<and> events (final e req fs) =
       [ConsoleError [LStr ''[ERROR] Error in PDF generation:'',
                      LErr (new_Error e ''URL parameter is required'')],
        ConsoleError [LStr ''[ERROR] Stack trace:'',
                      LStr (stack (new_Error e ''URL parameter is required''))]]
   \<and> launch_calls (final e req fs) = 0
   \<and> browser (final e req fs) = None
   \<and> tempFilePath (final e req fs) = None
   \<and> timers (final e req fs) = []
   \<and> files (final e req fs) = fs"
proof -
  assume "query_url req = QUndefined \<or> query_url req = QString []"
  then have url: "\<not> truthy (query_url req)" by auto
  have body: "get_prop (json_stringify (error_envelope e err)) ''error'' = JStr ''Failed to generate PDF''
      \<and> get_prop (json_stringify (error_envelope e err)) ''message'' = JStr (message err)" for err
    by (simp add: get_prop_def json_stringify_def error_envelope_def object_literal_def assign_def)
  from url have st: "settled e req (initial_state fs) =
      snd (catch_block e (new_Error e ''URL parameter is required'') (initial_state fs))"
    by (simp add: settled_def try_block_def)
  have "browser (settled e req (initial_state fs)) = None"
    by (simp add: st catch_block_def res_json_def Let_def)
  then have "final e req fs = settled e req (initial_state fs)"
    by (simp add: final_eq finally_block_no_browser)
  then show ?thesis
    using body [of "new_Error e ''URL parameter is required''"]
    by (simp add: st catch_block_def res_json_def Let_def launch_calls_def new_Error_def)
qed

theorem C3_missing_url_witness:
  "query_url empty_url_request = QString []
   \<and> res_status (final good_env empty_url_request Map.empty) = 500
   \<and> res_sent (final good_env empty_url_request Map.empty) =
       [SendJson [(''error'', JStr ''Failed to generate PDF''),
                  (''message'', JStr ''URL parameter is required'')]]
   \<and> launch_calls (final good_env empty_url_request Map.empty) = 0
   \<and> tempFilePath (final good_env empty_url_request Map.empty) = None"
proof -
  have q: "query_url empty_url_request = QUndefined \<or> query_url empty_url_request = QString []"
    by (simp add: empty_url_request_def)
  have body: "json_stringify (error_envelope good_env (new_Error good_env ''URL parameter is required''))
      = [(''error'', JStr ''Failed to generate PDF''), (''message'', JStr ''URL parameter is required'')]"
    by (simp add: json_stringify_def error_envelope_def object_literal_def assign_def new_Error_def
        good_env_def)
  from C3_missing_url [OF q, of good_env Map.empty] body show ?thesis
    by (simp add: empty_url_request_def)
qed

section \<open>Failure responses\<close>

text \<open>A number printed in decimal is read back unchanged.\<close>

lemma nat_of_digits_snoc: "nat_of_digits (ds @ [c]) = 10 * nat_of_digits ds + digit_value c"
  by (simp add: nat_of_digits_def)

lemma digit_value_digit_char: "d < 10 \<Longrightarrow> digit_value (digit_char d) = d"
  by (simp add: digit_value_def digit_char_def)

lemma nat_of_digits_string_of_nat: "nat_of_digits (string_of_nat n) = n"
proof (induction n rule: string_of_nat.induct)
  case (1 n)
  show ?case
  proof (cases "n < 10")
    case True
    then show ?thesis
      by (subst string_of_nat.simps) (simp add: nat_of_digits_def digit_value_digit_char)
  next
    case False
    then have "nat_of_digits (string_of_nat (n div 10)) = n div 10"
      using "1.IH" by simp
    then show ?thesis
      using False
      by (subst string_of_nat.simps) (simp add: nat_of_digits_snoc digit_value_digit_char Let_def)
  qed
qed

lemma envelope_props:
  "get_prop (json_stringify (error_envelope e err)) ''error'' = JStr ''Failed to generate PDF''"
  "get_prop (json_stringify (error_envelope e err)) ''message'' = JStr (message err)"
  "has_prop (json_stringify (error_envelope e err)) ''stack'' = (NODE_ENV e = Some ''development'')"
  by (simp_all add: get_prop_def has_prop_def json_stringify_def error_envelope_def
      object_literal_def assign_def)

lemma envelope_shape:
  "json_stringify (error_envelope e err) =
     (if NODE_ENV e = Some ''development''
      then [(''error'', JStr ''Failed to generate PDF''), (''message'', JStr (message err)),
            (''stack'', JStr (stack err))]
      else [(''error'', JStr ''Failed to generate PDF''), (''message'', JStr (message err))])"
  by (simp add: json_stringify_def error_envelope_def object_literal_def assign_def)

lemma sent_documents_simps [simp]:
  "sent_documents (emit ev s) = sent_documents s"
  "sent_documents (snd (finally_block e s)) = sent_documents s"
  by (simp_all add: sent_documents_def)

text \<open>
  C5. When the handler gets as far as the navigation (the parameter is there and has
  a string conversion, browser, page and viewport are set up) and the navigation ends
  with a response whose \<open>ok()\<close> is false, the handler
  answers with status 500 and the failure body whose \<open>message\<close> is
  \<open>Failed to load page: \<close> followed by the decimal status code; the code is read back
  unchanged from the text after that prefix. No document is sent, \<open>page.pdf\<close> is never
  called, and the browser is closed once.
\<close>

theorem C5_upstream_error:
  assumes "truthy (query_url req)" and "to_string (query_url req) = Some txt"
    and "puppeteer_launch e = Inr b"
    and "browser_newPage e = None" and "page_setViewport e = None"
    and "page_goto e = Inr (Some r)" and "\<not> resp_ok r"
  shows "res_status (final e req fs) = 500
   \<and> res_sent (final e req fs) =
       [SendJson (json_stringify (error_envelope e
          (new_Error e (''Failed to load page: '' @ string_of_nat (resp_status r)))))]
   \<and> get_prop (json_stringify (error_envelope e
          (new_Error e (''Failed to load page: '' @ string_of_nat (resp_status r))))) ''message''
       = JStr (''Failed to load page: '' @ string_of_nat (resp_status r))
   \<and> nat_of_digits (drop 21 (''Failed to load page: '' @ string_of_nat (resp_status r)))
       = resp_status r
   \<and> sent_documents (final e req fs) = []
   \<and> pdf_calls (final e req fs) = 0
   \<and> close_calls (final e req fs) = 1"
proof -
  have "pdf_calls (final e req fs) = 0"
    using assms by (simp add: final_eq stage_defs)
  moreover have "sent_documents (final e req fs) = []"
    using assms by (simp add: final_eq stage_defs sent_documents_def)
  moreover have "res_status (final e req fs) = 500 \<and> res_sent (final e req fs) =
       [SendJson (json_stringify (error_envelope e
          (new_Error e (''Failed to load page: '' @ string_of_nat (resp_status r)))))]
       \<and> close_calls (final e req fs) = 1"
    using assms by (simp add: final_eq stage_defs)
  ultimately show ?thesis
    by (simp add: envelope_props nat_of_digits_string_of_nat new_Error_def)
qed

theorem C5_upstream_error_witness:
  "res_status (final not_found_env good_request Map.empty) = 500
   \<and> res_sent (final not_found_env good_request Map.empty) =
       [SendJson [(''error'', JStr ''Failed to generate PDF''),
                  (''message'', JStr ''Failed to load page: 404'')]]
   \<and> nat_of_digits (drop 21 ''Failed to load page: 404'') = 404
   \<and> sent_documents (final not_found_env good_request Map.empty) = []
   \<and> pdf_calls (final not_found_env good_request Map.empty) = 0"
proof -
  have s: "string_of_nat 404 = ''404''"
    by code_simp
  have "truthy (query_url good_request)"
    "to_string (query_url good_request) = Some ''https://example.com''"
    "puppeteer_launch not_found_env = Inr 1"
    "browser_newPage not_found_env = None" "page_setViewport not_found_env = None"
    "page_goto not_found_env = Inr (Some \<lparr>resp_status = 404, resp_ok = False\<rparr>)"
    "\<not> resp_ok \<lparr>resp_status = 404, resp_ok = False\<rparr>"
    by (simp_all add: good_request_def not_found_env_def good_env_def)
  from C5_upstream_error [OF this, of Map.empty] s show ?thesis
    by (simp add: envelope_shape new_Error_def not_found_env_def good_env_def)
qed

text \<open>
  C6, as amended. The handler answers with the failure response exactly when the
  \<open>try\<close> block threw. Every such response has status 500 and the JSON body
  \<open>{error: 'Failed to generate PDF', message: <the error's message>}\<close>, with the
  additional property \<open>stack\<close> if and only if \<open>NODE_ENV\<close> is exactly \<open>development\<close>;
  under any other value of \<open>NODE_ENV\<close>, or none, the body has no \<open>stack\<close>.
\<close>

theorem C6_error_envelope:
  "is_failure (final e req fs) = isl (fst (try_block e req (initial_state fs)))
   \<and> (fst (try_block e req (initial_state fs)) = Inl err \<longrightarrow>
        res_status (final e req fs) = 500
        \<and> res_sent (final e req fs) = [SendJson (json_stringify (error_envelope e err))]
        \<and> json_stringify (error_envelope e err) =
            (if NODE_ENV e = Some ''development''
             then [(''error'', JStr ''Failed to generate PDF''), (''message'', JStr (message err)),
                   (''stack'', JStr (stack err))]
             else [(''error'', JStr ''Failed to generate PDF''), (''message'', JStr (message err))])
        \<and> has_prop (json_stringify (error_envelope e err)) ''stack''
            = (NODE_ENV e = Some ''development''))"
proof -
  have "is_failure (final e req fs) = isl (fst (try_block e req (initial_state fs)))"
    by (cases rule: scenarios [where e = e and req = req];
        simp add: final_eq stage_defs is_failure_def)
  moreover have "res_status (final e req fs) = 500
      \<and> res_sent (final e req fs) = [SendJson (json_stringify (error_envelope e err))]"
    if "fst (try_block e req (initial_state fs)) = Inl err"
    using that
    by (cases rule: scenarios [where e = e and req = req]; simp add: final_eq stage_defs; blast)
  moreover have "has_prop (json_stringify (error_envelope e err)) ''stack''
      = (NODE_ENV e = Some ''development'')"
    by (rule envelope_props)
  moreover note envelope_shape [of e err]
  ultimately show ?thesis
    by blast
qed

theorem C6_error_envelope_witness:
  "fst (try_block development_env no_url_request (initial_state Map.empty))
     = Inl (new_Error development_env ''URL parameter is required'')
   \<and> res_status (final development_env no_url_request Map.empty) = 500
   \<and> res_sent (final development_env no_url_request Map.empty) =
       [SendJson [(''error'', JStr ''Failed to generate PDF''),
                  (''message'', JStr ''URL parameter is required''),
                  (''stack'', JStr (stack (new_Error development_env ''URL parameter is required'')))]]"
proof -
  have t: "fst (try_block development_env no_url_request (initial_state Map.empty))
     = Inl (new_Error development_env ''URL parameter is required'')"
    by (simp add: try_block_def no_url_request_def)
  have d: "NODE_ENV development_env = Some ''development''"
    by (simp add: development_env_def)
  from C6_error_envelope [of development_env no_url_request Map.empty
      "new_Error development_env ''URL parameter is required''"] t d
  show ?thesis
    by (simp add: new_Error_def)
qed

text \<open>
  The claim as stated puts \<open>stack\<close> into the body in every mode other than production.
  With \<open>NODE_ENV=test\<close>, which is not production, a failed request carries no \<open>stack\<close>.
\<close>

theorem C6_error_envelope_counterexample:
  "NODE_ENV good_env \<noteq> Some ''production''
   \<and> is_failure (final good_env no_url_request Map.empty)
   \<and> res_sent (final good_env no_url_request Map.empty) =
       [SendJson [(''error'', JStr ''Failed to generate PDF''),
                  (''message'', JStr ''URL parameter is required'')]]
   \<and> \<not> has_prop [(''error'', JStr ''Failed to generate PDF''),
                    (''message'', JStr ''URL parameter is required'')] ''stack''"
  by (simp add: final_eq stage_defs is_failure_def no_url_request_def envelope_shape
      new_Error_def has_prop_def good_env_def)

section \<open>The document that is sent\<close>

text \<open>
  C4. Whenever the handler sends a document, it is the only thing sent, with status 200;
  it is not empty, it is the bytes the export wrote, and the \<open>Content-Length\<close> header
  is its length. Every successful request has sent exactly one such document. When
  every step up to the export succeeded, \<open>page.pdf\<close> returned but left a file of zero
  bytes and \<open>fs.stat\<close> read the size, the handler answers with status 500 and the
  message \<open>Generated PDF file is empty\<close>, and sends no document. The file is read
  between \<open>page.pdf\<close> and \<open>res.send\<close> with nothing else writing to it.
\<close>

theorem C4_non_empty_document:
  "(SendBuffer body \<in> set (res_sent (final e req fs)) \<longrightarrow>
      body \<noteq> []
      \<and> is_success (final e req fs)
      \<and> res_sent (final e req fs) = [SendBuffer body]
      \<and> res_status (final e req fs) = 200
      \<and> get_prop (res_headers (final e req fs)) ''Content-Length'' = JNum (of_nat (length body))
      \<and> page_pdf e = Inr body)
   \<and> (is_success (final e req fs) \<longrightarrow>
        (\<exists>sent. res_sent (final e req fs) = [SendBuffer sent] \<and> sent \<noteq> []
           \<and> get_prop (res_headers (final e req fs)) ''Content-Length''
               = JNum (of_nat (length sent))))
   \<and> (reaches_wait e req \<and> page_pdf e = Inr [] \<and> fs_stat_fault e = None \<longrightarrow>
        files (settled e req (initial_state fs)) (getTempFilePath e) = Some []
        \<and> res_status (final e req fs) = 500
        \<and> res_sent (final e req fs) =
            [SendJson (json_stringify (error_envelope e (new_Error e ''Generated PDF file is empty'')))]
        \<and> sent_documents (final e req fs) = []
        \<and> timers (final e req fs) = [(getTempFilePath e, 0)])"
proof -
  have sent: "body \<noteq> []
      \<and> is_success (final e req fs)
      \<and> res_sent (final e req fs) = [SendBuffer body]
      \<and> res_status (final e req fs) = 200
      \<and> get_prop (res_headers (final e req fs)) ''Content-Length'' = JNum (of_nat (length body))
      \<and> page_pdf e = Inr body"
    if "SendBuffer body \<in> set (res_sent (final e req fs))"
    using that
    by (cases rule: scenarios [where e = e and req = req];
        simp add: final_eq stage_defs is_success_def get_prop_def assign_def)
  have docs: "\<exists>sent. res_sent (final e req fs) = [SendBuffer sent] \<and> sent \<noteq> []
           \<and> get_prop (res_headers (final e req fs)) ''Content-Length''
               = JNum (of_nat (length sent))" if "is_success (final e req fs)"
    using that
    by (cases rule: scenarios [where e = e and req = req];
        simp add: final_eq stage_defs is_success_def get_prop_def assign_def)
  have empty: "files (settled e req (initial_state fs)) (getTempFilePath e) = Some []
        \<and> res_status (final e req fs) = 500
        \<and> res_sent (final e req fs) =
            [SendJson (json_stringify (error_envelope e (new_Error e ''Generated PDF file is empty'')))]
        \<and> sent_documents (final e req fs) = []
        \<and> timers (final e req fs) = [(getTempFilePath e, 0)]"
    if "reaches_wait e req" and "page_pdf e = Inr []" and "fs_stat_fault e = None"
    using that
    by (cases rule: scenarios [where e = e and req = req];
        simp add: final_eq stage_defs reaches_wait_def sent_documents_def)
  from sent docs empty show ?thesis by blast
qed

theorem C4_non_empty_document_witness:
  "res_sent (final good_env good_request Map.empty) = [SendBuffer [37, 80, 68]]
   \<and> get_prop (res_headers (final good_env good_request Map.empty)) ''Content-Length'' = JNum 3
   \<and> reaches_wait empty_pdf_env good_request
   \<and> res_status (final empty_pdf_env good_request Map.empty) = 500
   \<and> res_sent (final empty_pdf_env good_request Map.empty) =
       [SendJson [(''error'', JStr ''Failed to generate PDF''),
                  (''message'', JStr ''Generated PDF file is empty'')]]"
proof -
  have a: "SendBuffer [37, 80, 68] \<in> set (res_sent (final good_env good_request Map.empty))"
    by (simp add: final_eq stage_defs good_env_def good_request_def)
  have b: "reaches_wait empty_pdf_env good_request" "page_pdf empty_pdf_env = Inr []"
    "fs_stat_fault empty_pdf_env = None"
    by (simp_all add: reaches_wait_def empty_pdf_env_def good_env_def good_request_def)
  from a b C4_non_empty_document [of "[37, 80, 68]" good_env good_request Map.empty]
    C4_non_empty_document [of "[]" empty_pdf_env good_request Map.empty]
  show ?thesis
    by (simp add: envelope_shape new_Error_def empty_pdf_env_def good_env_def)
qed

section \<open>The export step\<close>





section \<open>The wait for content\<close>

lemmas sublist_eval = sublist_code prefix_code

text \<open>
  C8. For every request that gets as far as the wait for content (the parameter is
  there and has a string conversion, browser, page and viewport are set up, the
  navigation ended with a success status), the handler calls
  \<open>page.waitForSelector('body', {timeout: 10000})\<close>. When the call returns, the
  settle delay of 3000 ms follows at once, and then the export; it is the only settle
  delay of the request. When the call throws, the warning is logged, no settle delay is
  applied, and the export follows all the same. The response, its status and headers and
  the deletion timers are the same whatever the wait's outcome.
\<close>

theorem C8_readiness_wait:
  "reaches_wait e req \<Longrightarrow>
   (page_waitForSelector e = None \<longrightarrow>
      sublist
        [PageWaitForSelector ''body'' [(''timeout'', JNum 10000)],
         SettleDelay 3000,
         ConsoleLog [LStr ''[11] Wait complete''],
         ConsoleLog [LStr ''[12] Generating PDF...''],
         PagePdf (pdf_options (getTempFilePath e))]
        (events (final e req fs))
      \<and> settle_delays (final e req fs) = [3000])
   \<and> (page_waitForSelector e = Some err \<longrightarrow>
      sublist
        [PageWaitForSelector ''body'' [(''timeout'', JNum 10000)],
         ConsoleLog [LStr ''[WARNING] Timeout waiting for content, proceeding anyway...''],
         ConsoleLog [LStr ''[11] Wait complete''],
         ConsoleLog [LStr ''[12] Generating PDF...''],
         PagePdf (pdf_options (getTempFilePath e))]
        (events (final e req fs))
      \<and> settle_delays (final e req fs) = [])
   \<and> res_sent (final (e\<lparr>page_waitForSelector := w\<rparr>) req fs) = res_sent (final e req fs)
   \<and> res_status (final (e\<lparr>page_waitForSelector := w\<rparr>) req fs) = res_status (final e req fs)
   \<and> res_headers (final (e\<lparr>page_waitForSelector := w\<rparr>) req fs) = res_headers (final e req fs)
   \<and> timers (final (e\<lparr>page_waitForSelector := w\<rparr>) req fs) = timers (final e req fs)"
proof -
  assume r: "reaches_wait e req"
  have observed: "sublist
        [PageWaitForSelector ''body'' [(''timeout'', JNum 10000)],
         SettleDelay 3000,
         ConsoleLog [LStr ''[11] Wait complete''],
         ConsoleLog [LStr ''[12] Generating PDF...''],
         PagePdf (pdf_options (getTempFilePath e))]
        (events (final e req fs))" if "page_waitForSelector e = None"
    using r that by (cases rule: scenarios [where e = e and req = req];
        simp add: final_eq stage_defs reaches_wait_def finally_block_events wait_for_content_events
          object_literal_def assign_def sublist_eval)
  have missed: "sublist
        [PageWaitForSelector ''body'' [(''timeout'', JNum 10000)],
         ConsoleLog [LStr ''[WARNING] Timeout waiting for content, proceeding anyway...''],
         ConsoleLog [LStr ''[11] Wait complete''],
         ConsoleLog [LStr ''[12] Generating PDF...''],
         PagePdf (pdf_options (getTempFilePath e))]
        (events (final e req fs))" if "page_waitForSelector e = Some err"
    using r that by (cases rule: scenarios [where e = e and req = req];
        simp add: final_eq stage_defs reaches_wait_def finally_block_events wait_for_content_events
          object_literal_def assign_def sublist_eval)
  have delay: "settle_delays (final e req fs) = [3000]" if "page_waitForSelector e = None"
    using r that by (cases rule: scenarios [where e = e and req = req];
        simp add: final_eq stage_defs reaches_wait_def)
  have nodelay: "settle_delays (final e req fs) = []" if "page_waitForSelector e = Some err"
    using r that by (cases rule: scenarios [where e = e and req = req];
        simp add: final_eq stage_defs reaches_wait_def)
  have same: "res_sent (final (e\<lparr>page_waitForSelector := w\<rparr>) req fs) = res_sent (final e req fs)
   \<and> res_status (final (e\<lparr>page_waitForSelector := w\<rparr>) req fs) = res_status (final e req fs)
   \<and> res_headers (final (e\<lparr>page_waitForSelector := w\<rparr>) req fs) = res_headers (final e req fs)
   \<and> timers (final (e\<lparr>page_waitForSelector := w\<rparr>) req fs) = timers (final e req fs)"
    by (cases rule: scenarios [where e = e and req = req];
        simp add: final_eq stage_defs new_Error_def error_envelope_def getTempFilePath_def tempDir_def)
  from observed delay missed nodelay same show ?thesis by blast
qed

theorem C8_readiness_wait_witness:
  "reaches_wait wait_timeout_env good_request
   \<and> sublist
        [PageWaitForSelector ''body'' [(''timeout'', JNum 10000)],
         ConsoleLog [LStr ''[WARNING] Timeout waiting for content, proceeding anyway...''],
         ConsoleLog [LStr ''[11] Wait complete''],
         ConsoleLog [LStr ''[12] Generating PDF...''],
         PagePdf (pdf_options (getTempFilePath wait_timeout_env))]
        (events (final wait_timeout_env good_request Map.empty))
   \<and> settle_delays (final wait_timeout_env good_request Map.empty) = []
   \<and> res_sent (final wait_timeout_env good_request Map.empty)
       = res_sent (final good_env good_request Map.empty)"
proof -
  have r: "reaches_wait wait_timeout_env good_request"
    by (simp add: reaches_wait_def wait_timeout_env_def good_env_def good_request_def)
  have w: "page_waitForSelector wait_timeout_env = Some boom"
    by (simp add: wait_timeout_env_def)
  have g: "wait_timeout_env\<lparr>page_waitForSelector := None\<rparr> = good_env"
    by (simp add: wait_timeout_env_def good_env_def)
  from C8_readiness_wait [OF r, where err = boom and fs = Map.empty and w = None] r w g
  show ?thesis
    by simp
qed

section \<open>The cross-origin check\<close>

text \<open>
  C9, as amended. \<open>corsOptions.origin\<close> accepts a request if and only if the \<open>Origin\<close>
  header is absent, or is the empty string, or is exactly \<open>http://localhost:3000\<close>, or is
  exactly the one-character string \<open>*\<close>. Every other origin gets the error
  \<open>Not allowed by CORS\<close>: the entry \<open>*\<close> of the list admits no other origin.
\<close>

theorem C9_cors_origin:
  "corsOptions_origin e origin =
     (if origin = None \<or> origin = Some [] \<or> origin = Some ''http://localhost:3000''
         \<or> origin = Some ''*''
      then Inr True
      else Inl (new_Error e ''Not allowed by CORS''))"
  by (cases origin) (auto simp add: corsOptions_origin_def indexOf_def allowedOrigins_def)

text \<open>
  The claim as stated accepts a request only if the header is absent or is one of the
  two listed strings. A request whose \<open>Origin\<close> header is present with the empty value is
  none of these, and it is accepted, by the test \<open>!origin\<close>.
\<close>

theorem C9_cors_origin_counterexample:
  "corsOptions_origin good_env (Some []) = Inr True
   \<and> Some [] \<noteq> (None :: string option)
   \<and> Some [] \<noteq> Some ''http://localhost:3000''
   \<and> Some [] \<noteq> Some ''*''"
  by (simp add: corsOptions_origin_def)

theorem C9_cors_origin_witness:
  "corsOptions_origin good_env (Some ''*'') = Inr True
   \<and> corsOptions_origin good_env (Some ''http://localhost:3000'') = Inr True
   \<and> corsOptions_origin good_env None = Inr True
   \<and> corsOptions_origin good_env (Some ''https://example.com'')
       = Inl (new_Error good_env ''Not allowed by CORS'')
   \<and> corsOptions_origin good_env (Some ''http://localhost:3000/'')
       = Inl (new_Error good_env ''Not allowed by CORS'')"
  using C9_cors_origin [of good_env "Some ''*''"]
    C9_cors_origin [of good_env "Some ''http://localhost:3000''"]
    C9_cors_origin [of good_env None]
    C9_cors_origin [of good_env "Some ''https://example.com''"]
    C9_cors_origin [of good_env "Some ''http://localhost:3000/''"]
  by simp

section \<open>Cleaning up after a failure\<close>

lemma timer_callback_missing_file:
  assumes "files s p = None"
  shows "timer_callback e p s =
     (Inr (),
      emit (ConsoleError
        [LStr (''[ERROR] Failed to delete temporary file: '' @ p),
         LErr (new_Error e (''ENOENT: no such file or directory, unlink '' @ quoted p))])
        (emit (FsUnlink p) s))"
proof -
  from assms have "(files s)(p := None) = files s"
    by (simp add: fun_upd_idem)
  then have "(emit (FsUnlink p) s)\<lparr>files := (files s)(p := None)\<rparr> = emit (FsUnlink p) s"
    by (simp add: emit_def)
  with assms show ?thesis
    by (simp add: timer_callback_def fs_unlink_eq unlink_settled_def)
qed

text \<open>
  A state that waits for one timer on a path with no file: whether the timer fires
  while the handler waits for the browser to close or afterwards, and whether its
  \<open>unlink\<close> settles before the handler goes on or afterwards, the callback runs once, logs
  the error and changes neither the response nor the files.
\<close>

lemma cleanup_missing_file:
  assumes "pending s = [(p, d)]" and "unlinking s = []" and "files s p = None"
  shows "ConsoleError
           [LStr (''[ERROR] Failed to delete temporary file: '' @ p),
            LErr (new_Error e (''ENOENT: no such file or directory, unlink '' @ quoted p))]
         \<in> set (events
             (fire_timers e None (pending (snd (finally_block e s)))
               (settle_all e (unlinking (snd (finally_block e s)))
                 ((snd (finally_block e s))\<lparr>pending := [], unlinking := []\<rparr>))))
     \<and> unlink_calls
         (fire_timers e None (pending (snd (finally_block e s)))
           (settle_all e (unlinking (snd (finally_block e s)))
             ((snd (finally_block e s))\<lparr>pending := [], unlinking := []\<rparr>)))
       = unlink_calls s + 1"
proof (cases "browser s")
  case None
  with assms show ?thesis
    by (simp add: finally_block_no_browser fire_timer_events settles_within_def)
next
  case (Some b)
  with assms show ?thesis
    by (cases "browser_close e"; cases "timer_due (close_elapsed e) (p, d)";
        cases "settles_within e (Some (close_elapsed e)) (p, d)";
        simp add: finally_block_def run_due_timers_def Let_def console_log_def
          fire_timer_def fs_unlink_eq unlink_settled_events unlink_settled_def
          settles_within_def fun_upd_idem)
qed

text \<open>
  C10. When a request has failed with a temporary path allocated, exactly one deletion
  timer is set, for that path with delay 0. Run on a state with no file at the path, the
  timer's callback calls \<open>fs.unlink\<close>, which throws; the callback catches and logs the
  error with \<open>console.error\<close> and returns normally, changing nothing but the trace. When
  the \<open>try\<close> and \<open>catch\<close> blocks have left no file at the path, that is what happens in
  the request, once, whenever the timer fires: the error is in the trace, the response
  stays as the handler sent it and the handler's promise resolves. When a request has
  failed with no path allocated, which is the case only for an absent or empty \<open>url\<close>
  or one whose conversion to a string throws, no timer is set and \<open>fs.unlink\<close> is never
  called. A failed launch or a failed navigation, with no file at the fresh path, is a
  failure of the first kind.
\<close>

theorem C10_cleanup_after_failure:
  "(is_failure (final e req fs) \<and> tempFilePath (final e req fs) = Some p \<longrightarrow>
      timers (final e req fs) = [(p, 0)])
   \<and> (files s p = None \<longrightarrow>
        timer_callback e p s =
          (Inr (),
           emit (ConsoleError
             [LStr (''[ERROR] Failed to delete temporary file: '' @ p),
              LErr (new_Error e (''ENOENT: no such file or directory, unlink '' @ quoted p))])
             (emit (FsUnlink p) s)))
   \<and> (is_failure (final e req fs) \<and> tempFilePath (final e req fs) = Some p
        \<and> files (settled e req (initial_state fs)) p = None \<longrightarrow>
        ConsoleError
          [LStr (''[ERROR] Failed to delete temporary file: '' @ p),
           LErr (new_Error e (''ENOENT: no such file or directory, unlink '' @ quoted p))]
          \<in> set (events (complete e req fs))
        \<and> unlink_calls (complete e req fs) = 1
        \<and> res_sent (complete e req fs) = res_sent (final e req fs)
        \<and> res_status (complete e req fs) = res_status (final e req fs)
        \<and> fst (run e req fs) = Inr ())
   \<and> (is_failure (final e req fs) \<and> tempFilePath (final e req fs) = None \<longrightarrow>
        timers (final e req fs) = []
        \<and> unlink_calls (complete e req fs) = 0
        \<and> (truthy (query_url req) \<longrightarrow> to_string (query_url req) = None))
   \<and> (truthy (query_url req) \<and> to_string (query_url req) \<noteq> None
        \<and> fs (getTempFilePath e) = None
        \<and> (isl (puppeteer_launch e) \<or> isl (page_goto e)) \<longrightarrow>
        is_failure (final e req fs)
        \<and> tempFilePath (final e req fs) = Some (getTempFilePath e)
        \<and> files (settled e req (initial_state fs)) (getTempFilePath e) = None)"
proof -
  let ?S = "settled e req (initial_state fs)"
  have alloc: "tempFilePath (final e req fs) = Some (getTempFilePath e)
      \<and> timers (final e req fs) = [(getTempFilePath e, 0)]
      \<and> pending ?S = [(getTempFilePath e, 0)] \<and> unlinking ?S = [] \<and> unlink_calls ?S = 0"
    if "is_failure (final e req fs)" and "tempFilePath (final e req fs) \<noteq> None"
    using that by (cases rule: scenarios [where e = e and req = req];
        simp add: final_eq stage_defs is_failure_def)
  have sched: "timers (final e req fs) = [(p, 0)]"
    if "is_failure (final e req fs)" and "tempFilePath (final e req fs) = Some p"
    using alloc that by simp
  have logged: "ConsoleError
          [LStr (''[ERROR] Failed to delete temporary file: '' @ p),
           LErr (new_Error e (''ENOENT: no such file or directory, unlink '' @ quoted p))]
          \<in> set (events (complete e req fs))
        \<and> unlink_calls (complete e req fs) = 1
        \<and> res_sent (complete e req fs) = res_sent (final e req fs)
        \<and> res_status (complete e req fs) = res_status (final e req fs)
        \<and> fst (run e req fs) = Inr ()"
    if f: "is_failure (final e req fs)" and t: "tempFilePath (final e req fs) = Some p"
      and n: "files ?S p = None"
  proof -
    from alloc f t have p: "pending ?S = [(p, 0)]" "unlinking ?S = []" "unlink_calls ?S = 0"
      by simp_all
    from cleanup_missing_file [OF p(1) p(2) n, of e] p(3) show ?thesis
      by (simp add: complete_def Let_def final_eq run_def generate_pdf_eq)
  qed
  have early: "timers (final e req fs) = []
        \<and> unlink_calls (complete e req fs) = 0
        \<and> (truthy (query_url req) \<longrightarrow> to_string (query_url req) = None)"
    if "is_failure (final e req fs)" and "tempFilePath (final e req fs) = None"
    using that by (cases rule: scenarios [where e = e and req = req];
        simp add: final_eq stage_defs is_failure_def complete_def finally_block_no_browser)
  have example: "is_failure (final e req fs)
        \<and> tempFilePath (final e req fs) = Some (getTempFilePath e)
        \<and> files ?S (getTempFilePath e) = None"
    if "truthy (query_url req)" and "to_string (query_url req) \<noteq> None"
      and "fs (getTempFilePath e) = None"
      and "isl (puppeteer_launch e) \<or> isl (page_goto e)"
    using that by (cases rule: scenarios [where e = e and req = req];
        simp add: final_eq stage_defs is_failure_def)
  from sched timer_callback_missing_file [of s p e] logged early example show ?thesis
    by blast
qed

theorem C10_cleanup_after_failure_witness:
  "is_failure (final goto_fail_env good_request Map.empty)
   \<and> tempFilePath (final goto_fail_env good_request Map.empty)
       = Some (getTempFilePath goto_fail_env)
   \<and> timers (final goto_fail_env good_request Map.empty) = [(getTempFilePath goto_fail_env, 0)]
   \<and> ConsoleError
        [LStr (''[ERROR] Failed to delete temporary file: '' @ getTempFilePath goto_fail_env),
         LErr (new_Error goto_fail_env
           (''ENOENT: no such file or directory, unlink '' @ quoted (getTempFilePath goto_fail_env)))]
        \<in> set (events (complete goto_fail_env good_request Map.empty))
   \<and> unlink_calls (complete goto_fail_env good_request Map.empty) = 1
   \<and> res_sent (complete goto_fail_env good_request Map.empty)
       = res_sent (final goto_fail_env good_request Map.empty)"
proof -
  have h: "truthy (query_url good_request)" "to_string (query_url good_request) \<noteq> None"
    "Map.empty (getTempFilePath goto_fail_env) = None"
    "isl (page_goto goto_fail_env)"
    by (simp_all add: good_request_def goto_fail_env_def)
  from C10_cleanup_after_failure [where e = goto_fail_env and req = good_request
      and fs = Map.empty and p = "getTempFilePath goto_fail_env"] h
  show ?thesis
    by simp
qed

end
